theory Spec2Isabelle
  imports Main "HOL-Library.Word"
begin

unbundle bit_operations_syntax

section \<open>JavaScript helpers\<close>

text \<open>
  \<open>String.prototype.includes\<close>: a case-sensitive search for a contiguous substring.
\<close>

fun starts_with :: "string \<Rightarrow> string \<Rightarrow> bool" where
  "starts_with s [] = True"
| "starts_with [] (c # cs) = False"
| "starts_with (x # xs) (c # cs) = (x = c \<and> starts_with xs cs)"

fun js_includes :: "string \<Rightarrow> string \<Rightarrow> bool" where
  "js_includes [] sub = (sub = [])"
| "js_includes (x # xs) sub = (starts_with (x # xs) sub \<or> js_includes xs sub)"

text \<open>Truthiness of an optional string: \<open>undefined\<close> and the empty string are falsy.\<close>

fun truthy :: "string option \<Rightarrow> bool" where
  "truthy None = False"
| "truthy (Some s) = (s \<noteq> [])"

section \<open>Provider selection (provider-decision.service.ts, deployment.worker)\<close>

record ProjectAnalysis =
  pa_type :: string
  framework :: "string option"
  hasPackageJson :: bool
  hasBuildScript :: bool
  buildCommand :: "string option"
  buildDirectory :: "string option"
  isStaticHtml :: bool
  estimatedSize :: nat

text \<open>
  \<open>ProviderDecisionService.selectProvider\<close>. Only \<open>analysis\<close> and \<open>preferProviders\<close>
  of the options are read. The body cannot throw, so the \<open>catch\<close> fallback is dead.
\<close>

definition selectProvider :: "ProjectAnalysis \<Rightarrow> string list option \<Rightarrow> string" where
  "selectProvider analysis preferProviders =
     (case (case preferProviders of
              Some (preferred # rest) \<Rightarrow>
                if preferred = ''netlify'' \<or> preferred = ''vercel'' then Some preferred else None
            | Some [] \<Rightarrow> None
            | None \<Rightarrow> None) of
        Some preferred \<Rightarrow> preferred
      | None \<Rightarrow>
          if framework analysis = Some ''next'' \<or> pa_type analysis = ''next'' then ''vercel''
          else if isStaticHtml analysis \<or> pa_type analysis = ''static'' then ''netlify''
          else ''vercel'')"

text \<open>
  Step 3 of \<open>DeploymentWorker.executeDeployment\<close>: an explicitly passed provider is used
  as it is when truthy; otherwise \<open>selectProvider\<close> decides.
\<close>

definition selectedProvider ::
  "string option \<Rightarrow> string list option \<Rightarrow> ProjectAnalysis \<Rightarrow> string" where
  "selectedProvider provider preferProviders analysis =
     (case provider of
        Some p \<Rightarrow> if p \<noteq> [] then p else selectProvider analysis preferProviders
      | None \<Rightarrow> selectProvider analysis preferProviders)"

text \<open>The adapters registered at start-up by \<open>ProviderModule.onModuleInit\<close>.\<close>

definition registered :: "string list" where
  "registered = [''netlify'', ''vercel'']"

text \<open>
  The decision order as the specification words it (section 4.4), kept separate from the
  code's function above so that the two can be compared:
  explicit provider if registered; else the first registered entry of the preference
  list; else Vercel for Next.js; else Netlify for pure-static or type static; else Vercel.
\<close>

definition spec_select ::
  "string option \<Rightarrow> string list \<Rightarrow> ProjectAnalysis \<Rightarrow> string" where
  "spec_select explicit_provider preferred_providers detection =
     (case (case explicit_provider of
              Some p \<Rightarrow> if p \<in> set registered then Some p else None
            | None \<Rightarrow> None) of
        Some p \<Rightarrow> p
      | None \<Rightarrow>
          (case find (\<lambda>p. p \<in> set registered) preferred_providers of
             Some p \<Rightarrow> p
           | None \<Rightarrow>
               if framework detection = Some ''next'' \<or> pa_type detection = ''next''
               then ''vercel''
               else if isStaticHtml detection \<or> pa_type detection = ''static''
               then ''netlify''
               else ''vercel''))"

text \<open>Only the head of the preference list is ever read by the code.\<close>

fun first_preference :: "string list option \<Rightarrow> string list" where
  "first_preference None = []"
| "first_preference (Some []) = []"
| "first_preference (Some (p # rest)) = [p]"

section \<open>Deployment store (DeploymentService.updateDeploymentStatus)\<close>

text \<open>
  The status strings the code uses: \<open>createDeployment\<close> writes queued,
  \<open>isDeploymentActive\<close> lists queued, cloning, detecting, building and deploying, and
  \<open>updateDeploymentStatus\<close> names success, failed and cancelled.
\<close>

datatype status =
  Queued | Cloning | Detecting | Building | Deploying | Success | Failed | Cancelled

record Deployment =
  status :: status
  updatedAt :: nat
  startedAt :: "nat option"
  completedAt :: "nat option"
  provider :: "string option"
  deploymentUrl :: "string option"
  detectedStack :: "string option"
  errorMessage :: "string option"

text \<open>The optional \<open>data\<close> argument: a partial record, absent keys are \<open>None\<close>.\<close>

record StatusData =
  sd_provider :: "string option"
  sd_deploymentUrl :: "string option"
  sd_detectedStack :: "string option"
  sd_errorMessage :: "string option"

definition no_data :: StatusData where
  "no_data = \<lparr>sd_provider = None, sd_deploymentUrl = None, sd_detectedStack = None,
              sd_errorMessage = None\<rparr>"

text \<open>A key of the patch overrides the stored column only when it is present.\<close>

fun patched :: "'a option \<Rightarrow> 'a option \<Rightarrow> 'a option" where
  "patched (Some v) old = Some v"
| "patched None old = old"

text \<open>
  \<open>updateDeploymentStatus(id, status, data)\<close> at time \<open>now\<close>. The repository is a map from
  id to row; an update of an unknown id touches no row. Nothing in the function reads
  the stored status.
\<close>

definition updateDeploymentStatus ::
  "(string \<rightharpoonup> Deployment) \<Rightarrow> string \<Rightarrow> status \<Rightarrow> StatusData \<Rightarrow> nat
     \<Rightarrow> (string \<rightharpoonup> Deployment)" where
  "updateDeploymentStatus repo ident st data now =
     (case repo ident of
        None \<Rightarrow> repo
      | Some d \<Rightarrow>
          repo(ident \<mapsto> d\<lparr>
            status := st,
            updatedAt := now,
            provider := patched (sd_provider data) (provider d),
            deploymentUrl := patched (sd_deploymentUrl data) (deploymentUrl d),
            detectedStack := patched (sd_detectedStack data) (detectedStack d),
            errorMessage := patched (sd_errorMessage data) (errorMessage d),
            startedAt := (if st = Building then Some now else startedAt d),
            completedAt :=
              (if st = Building then completedAt d
               else if st \<in> set [Success, Failed, Cancelled] then Some now
               else completedAt d)\<rparr>))"

section \<open>Worker pipeline (DeploymentWorker)\<close>

record DeploymentJobData =
  job_deploymentId :: string
  job_repoUrl :: string
  job_branch :: string
  preferProviders :: "string list option"
  explicitProvider :: "string option"
  credentialId :: "string option"

record Job =
  attemptsMade :: nat
  job_data :: DeploymentJobData

record CredentialData =
  cd_provider :: string
  cd_credentials :: string
  cd_isActive :: bool

record BuildResult =
  br_success :: bool
  br_artifactPath :: "string option"
  br_error :: "string option"

record DeploymentResult =
  dr_success :: bool
  dr_url :: "string option"
  dr_error :: "string option"
  dr_provider :: string

text \<open>
  What the collaborators answer during one run of the pipeline. An exception is its
  message (\<open>Inl\<close>). \<open>analyzeProject\<close>, \<open>buildProject\<close> and the adapters catch their own
  errors and always return a value; \<open>getFirstCredentialForProvider\<close> returns null instead
  of raising. \<open>timer_fires = Some n\<close> says that the 15 minute timer of
  \<open>processDeployment\<close> wins the race after \<open>executeDeployment\<close> has written \<open>n\<close> of its
  status updates; \<open>Promise.race\<close> does not stop the loser, which goes on running.
  Log calls and the workspace cleanup raise nothing and write no status, and are left out;
  the store's update is taken to succeed.
\<close>

record World =
  clone_outcome :: "string + string"
  analysis_outcome :: ProjectAnalysis
  credentialForDeployment :: "string \<Rightarrow> string + CredentialData"
  firstCredentialForProvider :: "string \<Rightarrow> string option"
  build_outcome :: BuildResult
  adapter_deploy :: "string \<Rightarrow> string option \<Rightarrow> string \<Rightarrow> DeploymentResult"
  timer_fires :: "nat option"

text \<open>\<open>s || d\<close> on an optional string.\<close>

fun or_default :: "string option \<Rightarrow> string \<Rightarrow> string" where
  "or_default None d = d"
| "or_default (Some s) d = (if s = [] then d else s)"

text \<open>
  \<open>ProviderDecisionService.deployToProvider\<close>: providers other than the two supported
  ones are refused before the registry is asked; every error is turned into a result
  with \<open>success = false\<close>.
\<close>

definition deployToProvider ::
  "World \<Rightarrow> string \<Rightarrow> string option \<Rightarrow> string \<Rightarrow> DeploymentResult" where
  "deployToProvider w prov projectPath credentials =
     (if prov \<noteq> ''netlify'' \<and> prov \<noteq> ''vercel''
      then \<lparr>dr_success = False, dr_url = None,
            dr_error = Some (''Provider '' @ prov @
              '' is not supported. Only 'netlify' and 'vercel' are available.''),
            dr_provider = prov\<rparr>
      else adapter_deploy w prov projectPath credentials)"

text \<open>Step 3.5 of \<open>executeDeployment\<close>: the credential is loaded or the run fails.\<close>

definition load_credentials :: "World \<Rightarrow> DeploymentJobData \<Rightarrow> string \<Rightarrow> string + string" where
  "load_credentials w job selected =
     (if truthy (credentialId job)
      then
        (case (case credentialForDeployment w (the (credentialId job)) of
                 Inl msg \<Rightarrow> Inl msg
               | Inr credentialData \<Rightarrow>
                   if \<not> cd_isActive credentialData
                   then Inl ''Selected credential is inactive''
                   else if cd_provider credentialData \<noteq> selected
                   then Inl (''Credential provider ('' @ cd_provider credentialData @
                             '') does not match selected provider ('' @ selected @ '')'')
                   else Inr (cd_credentials credentialData)) of
           Inl msg \<Rightarrow> Inl (''Credential error: '' @ msg)
         | Inr credentials \<Rightarrow> Inr credentials)
      else
        (case firstCredentialForProvider w selected of
           Some credentials \<Rightarrow> Inr credentials
         | None \<Rightarrow> Inl (''No credentials available for '' @ selected @
                         ''. Please add credentials in Settings.'')))"

text \<open>Step 4: the build runs only for a project with a build script that is not static HTML.\<close>

definition build_step :: "World \<Rightarrow> ProjectAnalysis \<Rightarrow> string \<Rightarrow> string + string option" where
  "build_step w projectAnalysis workspaceDir =
     (if hasBuildScript projectAnalysis \<and> \<not> isStaticHtml projectAnalysis
      then
        (if \<not> br_success (build_outcome w)
         then Inl (or_default (br_error (build_outcome w)) ''Build failed'')
         else Inr (br_artifactPath (build_outcome w)))
      else Inr (Some workspaceDir))"

text \<open>
  The \<open>catch\<close> of \<open>executeDeployment\<close>: the deployment is marked failed with the message
  (\<open>error?.message || String(error)\<close>) and the error is thrown again.
\<close>

definition execute_failed ::
  "(status \<times> StatusData) list \<Rightarrow> string
     \<Rightarrow> (status \<times> StatusData) list \<times> (string + DeploymentResult)" where
  "execute_failed updates msg =
     (updates @ [(Failed, no_data\<lparr>sd_errorMessage := Some (or_default (Some msg) ''Error'')\<rparr>)],
      Inl msg)"

text \<open>
  \<open>executeDeployment\<close>: the calls of \<open>updateDeploymentStatus\<close> it makes, in order, and how
  it settles (the thrown message, or the deployment result).
\<close>

definition executeDeployment ::
  "World \<Rightarrow> DeploymentJobData
     \<Rightarrow> (status \<times> StatusData) list \<times> (string + DeploymentResult)" where
  "executeDeployment w job =
     (case clone_outcome w of
        Inl msg \<Rightarrow> execute_failed [(Cloning, no_data)] msg
      | Inr workspaceDir \<Rightarrow>
          (let projectAnalysis = analysis_outcome w;
               selected = selectedProvider (explicitProvider job) (preferProviders job)
                            projectAnalysis
           in case load_credentials w job selected of
                Inl msg \<Rightarrow> execute_failed [(Cloning, no_data), (Building, no_data)] msg
              | Inr credentials \<Rightarrow>
                  (case build_step w projectAnalysis workspaceDir of
                     Inl msg \<Rightarrow> execute_failed [(Cloning, no_data), (Building, no_data)] msg
                   | Inr buildPath \<Rightarrow>
                       (let deployResult = deployToProvider w selected buildPath credentials
                        in if \<not> dr_success deployResult
                           then execute_failed
                                  [(Cloning, no_data), (Building, no_data), (Deploying, no_data)]
                                  (or_default (dr_error deployResult) ''Deployment failed'')
                           else ([(Cloning, no_data), (Building, no_data), (Deploying, no_data),
                                  (Success, no_data\<lparr>sd_deploymentUrl := dr_url deployResult\<rparr>)],
                                 Inr deployResult)))))"

text \<open>How \<open>processDeployment\<close> ends: it returns, or it throws again so that Bull retries.\<close>

datatype outcome = Completed | Rethrown string

definition MAX_RETRIES :: nat where
  "MAX_RETRIES = 2"

definition timeout_message :: string where
  "timeout_message = ''Deployment timeout: exceeded 15 minute limit''"

text \<open>
  The \<open>catch\<close> of \<open>processDeployment\<close>, reached with the error that won the race;
  \<open>earlier\<close> and \<open>later\<close> are the status updates \<open>executeDeployment\<close> writes before and after
  that moment.
\<close>

definition on_error ::
  "Job \<Rightarrow> string \<Rightarrow> (status \<times> StatusData) list \<Rightarrow> (status \<times> StatusData) list
     \<Rightarrow> (status \<times> StatusData) list \<times> outcome" where
  "on_error job msg earlier later =
     (if attemptsMade job < MAX_RETRIES \<and> \<not> js_includes msg ''timeout''
      then (earlier @ later, Rethrown msg)
      else (earlier @ [(Failed, no_data\<lparr>sd_errorMessage := Some msg\<rparr>)] @ later, Completed))"

definition processDeployment ::
  "World \<Rightarrow> Job \<Rightarrow> (status \<times> StatusData) list \<times> outcome" where
  "processDeployment w job =
     (let run = executeDeployment w (job_data job)
      in case timer_fires w of
           Some n \<Rightarrow> on_error job timeout_message (take n (fst run)) (drop n (fst run))
         | None \<Rightarrow>
             (case snd run of
                Inr result \<Rightarrow> (fst run, Completed)
              | Inl msg \<Rightarrow> on_error job msg (fst run) []))"

text \<open>The status updates applied to the store, one clock tick each.\<close>

fun apply_updates ::
  "(string \<rightharpoonup> Deployment) \<Rightarrow> string \<Rightarrow> nat \<Rightarrow> (status \<times> StatusData) list
     \<Rightarrow> (string \<rightharpoonup> Deployment)" where
  "apply_updates repo ident now [] = repo"
| "apply_updates repo ident now ((st, data) # rest) =
     apply_updates (updateDeploymentStatus repo ident st data now) ident (Suc now) rest"

text \<open>
  The place of a status on the way from queued to a final status; success, failed and
  cancelled are final.
\<close>

fun stage :: "status \<Rightarrow> nat" where
  "stage Queued = 0"
| "stage Cloning = 1"
| "stage Detecting = 2"
| "stage Building = 3"
| "stage Deploying = 4"
| "stage Success = 5"
| "stage Failed = 5"
| "stage Cancelled = 5"

text \<open>The patch written with a failed status: the error message alone.\<close>

definition failure_data :: "string \<Rightarrow> StatusData" where
  "failure_data msg = no_data\<lparr>sd_errorMessage := Some msg\<rparr>"

section \<open>Concrete runs\<close>

text \<open>
  A React single-page application whose container build exits with status 1, first
  attempt of the job, a stored Vercel credential, no explicit provider or credential.
\<close>

definition react_app :: ProjectAnalysis where
  "react_app = \<lparr>pa_type = ''spa'', framework = Some ''react'', hasPackageJson = True,
        hasBuildScript = True, buildCommand = Some ''vite build'',
        buildDirectory = Some ''dist'', isStaticHtml = False, estimatedSize = 3\<rparr>"

definition world_build_fails :: World where
  "world_build_fails =
     \<lparr>clone_outcome = Inr ''/tmp/deployify-workspaces/workspace_1'',
      analysis_outcome = react_app,
      credentialForDeployment = (\<lambda>i. Inl ''Credentials not found''),
      firstCredentialForProvider = (\<lambda>p. Some ''{token}''),
      build_outcome = \<lparr>br_success = False, br_artifactPath = None,
                       br_error = Some ''Build failed with exit code 1''\<rparr>,
      adapter_deploy = (\<lambda>p path c. \<lparr>dr_success = True, dr_url = Some ''https://app.vercel.app'',
                                     dr_error = None, dr_provider = p\<rparr>),
      timer_fires = None\<rparr>"

text \<open>The same run with no stored credential for any provider.\<close>

definition world_no_credential :: World where
  "world_no_credential = world_build_fails\<lparr>firstCredentialForProvider := (\<lambda>p. None)\<rparr>"

text \<open>The same run cut by the timer after the first status update.\<close>

definition world_timer :: World where
  "world_timer = world_build_fails\<lparr>timer_fires := Some 1\<rparr>"

text \<open>The same project when the clone fails, when the provider refuses, and when all goes well.\<close>

definition world_clone_fails :: World where
  "world_clone_fails =
     world_build_fails\<lparr>clone_outcome := Inl ''Failed to clone repository: not found''\<rparr>"

definition world_success :: World where
  "world_success =
     world_build_fails\<lparr>build_outcome :=
       \<lparr>br_success = True, br_artifactPath = Some ''/tmp/deployify-workspaces/workspace_1/dist'',
        br_error = None\<rparr>\<rparr>"

definition world_deploy_fails :: World where
  "world_deploy_fails =
     world_success\<lparr>adapter_deploy :=
       (\<lambda>p path c. \<lparr>dr_success = False, dr_url = None, dr_error = Some ''Invalid token'',
                     dr_provider = p\<rparr>)\<rparr>"

definition first_attempt :: Job where
  "first_attempt = \<lparr>attemptsMade = 0,
      job_data = \<lparr>job_deploymentId = ''d1'', job_repoUrl = ''https://github.com/a/b'', job_branch = ''main'',
                  preferProviders = None, explicitProvider = None, credentialId = None\<rparr>\<rparr>"

definition third_attempt :: Job where
  "third_attempt = first_attempt\<lparr>attemptsMade := 2\<rparr>"

text \<open>A stored deployment that an earlier attempt marked failed at time 5.\<close>

definition failed_deployment :: Deployment where
  "failed_deployment = \<lparr>status = Failed, updatedAt = 5, startedAt = Some 3,
      completedAt = Some 5, provider = None, deploymentUrl = None, detectedStack = None,
      errorMessage = Some ''Build failed with exit code 1''\<rparr>"

section \<open>Repository clone (ContainerService.cloneRepository)\<close>

text \<open>
  What the function does to the workspace, in order: \<open>Clone b\<close> is one attempt (the
  directory is created and \<open>git clone --depth 1\<close> runs, with \<open>--branch b\<close> when \<open>b\<close> is
  given), \<open>Wipe\<close> is the recursive removal of the workspace directory.
\<close>

datatype fs_event = Clone "string option" | Wipe

text \<open>
  The outside world of one call: \<open>setup_error\<close> is the error of creating the base and
  workspace directories before the first attempt, if any; \<open>attempt_error k b\<close> is the
  error message of the \<open>k\<close>-th attempt (counted from 0) when made on branch \<open>b\<close>, or
  \<open>None\<close> when that attempt succeeds. Errors of a removal are swallowed by the code.
\<close>

record CloneWorld =
  setup_error :: "string option"
  attempt_error :: "nat \<Rightarrow> string option \<Rightarrow> string option"

definition commonBranches :: "string list" where
  "commonBranches = [''main'', ''master'', ''develop'', ''dev'']"

definition branchesToTry :: "string \<Rightarrow> string list" where
  "branchesToTry branch =
     (if branch \<noteq> ''main'' then commonBranches else [''master'', ''develop'', ''dev''])"

text \<open>
  The \<open>for\<close> loop over \<open>branchesToTry\<close>: the events, and whether an attempt succeeded
  (the function returns from inside the loop then).
\<close>

fun try_branches :: "CloneWorld \<Rightarrow> nat \<Rightarrow> string list \<Rightarrow> fs_event list \<times> bool" where
  "try_branches cw k [] = ([], False)"
| "try_branches cw k (tryBranch # rest) =
     (case attempt_error cw k (Some tryBranch) of
        None \<Rightarrow> ([Clone (Some tryBranch)], True)
      | Some e \<Rightarrow>
          (Clone (Some tryBranch) # Wipe # fst (try_branches cw (Suc k) rest),
           snd (try_branches cw (Suc k) rest)))"

definition cloneRepository ::
  "CloneWorld \<Rightarrow> string \<Rightarrow> string \<Rightarrow> fs_event list \<times> (string + string)" where
  "cloneRepository cw branch workspaceDir =
     (case setup_error cw of
        Some e \<Rightarrow> ([Wipe], Inl (''Failed to clone repository: '' @ e))
      | None \<Rightarrow>
          (case attempt_error cw 0 (Some branch) of
             None \<Rightarrow> ([Clone (Some branch)], Inr workspaceDir)
           | Some branchError \<Rightarrow>
               (let loop = try_branches cw 1 (branchesToTry branch)
                in if snd loop
                   then (Clone (Some branch) # Wipe # fst loop, Inr workspaceDir)
                   else
                     (case attempt_error cw (Suc (length (branchesToTry branch))) None of
                        None \<Rightarrow>
                          (Clone (Some branch) # Wipe # fst loop @ [Clone None],
                           Inr workspaceDir)
                      | Some finalError \<Rightarrow>
                          (Clone (Some branch) # Wipe # fst loop @ [Clone None, Wipe],
                           Inl (''Failed to clone repository: '' @
                                ''Unable to clone repository. Original error: '' @ branchError @
                                '', Final error: '' @ finalError))))))"

text \<open>The branches of the clone attempts in a list of events.\<close>

fun attempted :: "fs_event list \<Rightarrow> string option list" where
  "attempted [] = []"
| "attempted (Clone b # es) = b # attempted es"
| "attempted (Wipe # es) = attempted es"

text \<open>
  The order of attempts the code follows: the requested branch, \<open>branchesToTry\<close>, then
  no branch.
\<close>

definition candidates :: "string \<Rightarrow> string option list" where
  "candidates branch = Some branch # map Some (branchesToTry branch) @ [None]"

text \<open>
  The order of attempts as the specification words it (section 4.5): the requested
  branch, then main, master, develop, dev without the one already tried, then no branch.
\<close>

definition spec_candidates :: "string \<Rightarrow> string option list" where
  "spec_candidates branch =
     Some branch # map Some (filter (\<lambda>b. b \<noteq> branch) commonBranches) @ [None]"

text \<open>A repository that exists nowhere: every attempt ends in the same error.\<close>

definition world_unreachable :: CloneWorld where
  "world_unreachable =
     \<lparr>setup_error = None, attempt_error = (\<lambda>k b. Some ''Remote branch not found'')\<rparr>"

section \<open>Log bus (LoggingService, LogsController.streamLogs)\<close>

datatype level = Info | Warn | Error | SuccessLevel

record DeploymentLog =
  log_id :: string
  log_deploymentId :: string
  timestamp :: nat
  log_level :: level
  message :: string
  step :: "string option"

text \<open>
  What can be observed from outside: a write of the deployment's log file that went
  through, a write that failed (with its error), and a log handed to a subscriber's
  callback, which for a stream is \<open>observer.next\<close>.
\<close>

datatype log_event =
  PersistOk string DeploymentLog
| PersistFailed string string
| Next nat DeploymentLog

text \<open>
  The service's two maps, the log files on disk (no entry: no file), and the events so
  far. A subscriber is identified by a number.
\<close>

record LogState =
  deploymentLogs :: "string \<rightharpoonup> DeploymentLog list"
  logSubscribers :: "string \<rightharpoonup> nat list"
  files :: "string \<rightharpoonup> DeploymentLog list"
  history :: "log_event list"

text \<open>\<open>map.get(k)\<close> of a list-valued map, with \<open>[]\<close> for a missing key.\<close>

fun entries :: "'a list option \<Rightarrow> 'a list" where
  "entries None = []"
| "entries (Some xs) = xs"

text \<open>First part of \<open>addLog\<close>, up to the first \<open>await\<close>: the log is pushed to memory.\<close>

definition store_in_memory :: "LogState \<Rightarrow> string \<Rightarrow> DeploymentLog \<Rightarrow> LogState" where
  "store_in_memory st deploymentId log =
     st\<lparr>deploymentLogs :=
          (deploymentLogs st)(deploymentId \<mapsto> entries (deploymentLogs st deploymentId) @ [log])\<rparr>"

text \<open>
  The body of the \<open>try\<close> in \<open>persistLog\<close>: the file is read (a missing file counts as an
  empty array), the log appended, the file written; \<open>write_error\<close> is the error of that
  write, if any.
\<close>

definition persist_write ::
  "LogState \<Rightarrow> string \<Rightarrow> DeploymentLog \<Rightarrow> string option \<Rightarrow> string + LogState" where
  "persist_write st deploymentId log write_error =
     (case write_error of
        Some e \<Rightarrow> Inl e
      | None \<Rightarrow>
          Inr (st\<lparr>files := (files st)(deploymentId \<mapsto> entries (files st deploymentId) @ [log]),
                  history := history st @ [PersistOk deploymentId log]\<rparr>))"

text \<open>\<open>persistLog\<close>: the \<open>catch\<close> logs the error and returns normally.\<close>

definition persistLog ::
  "LogState \<Rightarrow> string \<Rightarrow> DeploymentLog \<Rightarrow> string option \<Rightarrow> LogState" where
  "persistLog st deploymentId log write_error =
     (case persist_write st deploymentId log write_error of
        Inl e \<Rightarrow> st\<lparr>history := history st @ [PersistFailed deploymentId e]\<rparr>
      | Inr st' \<Rightarrow> st')"

text \<open>\<open>notifySubscribers\<close>: every callback registered for the deployment is called, in order.\<close>

definition notifySubscribers :: "LogState \<Rightarrow> string \<Rightarrow> DeploymentLog \<Rightarrow> LogState" where
  "notifySubscribers st deploymentId log =
     st\<lparr>history := history st @
          map (\<lambda>callback. Next callback log) (entries (logSubscribers st deploymentId))\<rparr>"

text \<open>The log object built at the start of \<open>addLog\<close>.\<close>

definition make_log ::
  "string \<Rightarrow> level \<Rightarrow> string \<Rightarrow> string option \<Rightarrow> string \<Rightarrow> nat \<Rightarrow> DeploymentLog" where
  "make_log deploymentId lvl msg stp ident now =
     \<lparr>log_id = ident, log_deploymentId = deploymentId, timestamp = now,
      log_level = lvl, message = msg, step = stp\<rparr>"

text \<open>
  \<open>addLog\<close>, run without interruption. The generated id and the clock are arguments.
  The result is a sum so that a raised error would show; no path of the code raises.
\<close>

definition addLog ::
  "LogState \<Rightarrow> string \<Rightarrow> level \<Rightarrow> string \<Rightarrow> string option \<Rightarrow> string \<Rightarrow> nat \<Rightarrow> string option
     \<Rightarrow> string + LogState" where
  "addLog st deploymentId lvl msg stp ident now write_error =
     (let log = make_log deploymentId lvl msg stp ident now;
          st1 = store_in_memory st deploymentId log;
          st2 = persistLog st1 deploymentId log write_error;
          st3 = notifySubscribers st2 deploymentId log
      in Inr st3)"

text \<open>
  \<open>getLogs\<close>: the in-memory array when it is non-empty, else the file's content, which
  \<open>loadLogsFromFile\<close> also puts into memory; no file gives \<open>[]\<close>.
\<close>

definition getLogs :: "LogState \<Rightarrow> string \<Rightarrow> DeploymentLog list \<times> LogState" where
  "getLogs st deploymentId =
     (if entries (deploymentLogs st deploymentId) \<noteq> []
      then (entries (deploymentLogs st deploymentId), st)
      else
        (case files st deploymentId of
           Some logs \<Rightarrow> (logs, st\<lparr>deploymentLogs := (deploymentLogs st)(deploymentId \<mapsto> logs)\<rparr>)
         | None \<Rightarrow> ([], st)))"

definition subscribeToLogs :: "LogState \<Rightarrow> string \<Rightarrow> nat \<Rightarrow> LogState" where
  "subscribeToLogs st deploymentId callback =
     st\<lparr>logSubscribers :=
          (logSubscribers st)(deploymentId \<mapsto> entries (logSubscribers st deploymentId) @ [callback])\<rparr>"

text \<open>The \<open>then\<close> callback of \<open>streamLogs\<close>: each existing log goes to the observer.\<close>

definition replay :: "LogState \<Rightarrow> nat \<Rightarrow> DeploymentLog list \<Rightarrow> LogState" where
  "replay st observer existingLogs =
     st\<lparr>history := history st @ map (\<lambda>log. Next observer log) existingLogs\<rparr>"

text \<open>
  \<open>streamLogs\<close> for one client, when the promise of \<open>getLogs\<close> resolves before anything
  else runs: \<open>getLogs\<close> is called, the observer is subscribed, the existing logs are sent.
\<close>

definition streamLogs :: "LogState \<Rightarrow> string \<Rightarrow> nat \<Rightarrow> LogState" where
  "streamLogs st deploymentId observer =
     (let existing = getLogs st deploymentId;
          st1 = subscribeToLogs (snd existing) deploymentId observer
      in replay st1 observer (fst existing))"

text \<open>What one observer has been handed so far, in order.\<close>

fun delivered :: "log_event list \<Rightarrow> nat \<Rightarrow> DeploymentLog list" where
  "delivered [] observer = []"
| "delivered (Next callback log # es) observer =
     (if callback = observer then log # delivered es observer else delivered es observer)"
| "delivered (PersistOk d log # es) observer = delivered es observer"
| "delivered (PersistFailed d e # es) observer = delivered es observer"

text \<open>\<open>is_subsequence xs ys\<close>: \<open>xs\<close> is \<open>ys\<close> with some elements left out, order kept.\<close>

fun is_subsequence :: "'a list \<Rightarrow> 'a list \<Rightarrow> bool" where
  "is_subsequence [] ys = True"
| "is_subsequence (x # xs) [] = False"
| "is_subsequence (x # xs) (y # ys) =
     (if x = y then is_subsequence xs ys else is_subsequence (x # xs) ys)"

text \<open>Two logs of deployment d1, and a service with one subscriber and nothing logged.\<close>

definition log1 :: DeploymentLog where
  "log1 = \<lparr>log_id = ''d1-1000-abc'', log_deploymentId = ''d1'', timestamp = 1000,
           log_level = Info, message = ''Starting deployment process...'',
           step = Some ''initialization''\<rparr>"

definition log2 :: DeploymentLog where
  "log2 = \<lparr>log_id = ''d1-1001-def'', log_deploymentId = ''d1'', timestamp = 1001,
           log_level = Info, message = ''Cloning repository...'', step = Some ''clone''\<rparr>"

definition one_subscriber :: LogState where
  "one_subscriber = \<lparr>deploymentLogs = Map.empty, logSubscribers = [''d1'' \<mapsto> [7]],
                     files = Map.empty, history = []\<rparr>"

text \<open>The service after \<open>log1\<close> was appended in full, with no subscriber.\<close>

definition after_log1 :: LogState where
  "after_log1 = \<lparr>deploymentLogs = [''d1'' \<mapsto> [log1]], logSubscribers = Map.empty,
                 files = [''d1'' \<mapsto> [log1]], history = [PersistOk ''d1'' log1]\<rparr>"

text \<open>A fresh process (empty memory) that finds the log file of an earlier one.\<close>

definition after_restart :: LogState where
  "after_restart = \<lparr>deploymentLogs = Map.empty, logSubscribers = Map.empty,
                    files = [''d1'' \<mapsto> [log1]], history = []\<rparr>"

section \<open>Container build (ContainerService.buildWithLanguageContainer)\<close>

text \<open>Decimal digits of a number, as a template literal prints it.\<close>

function show_nat :: "nat \<Rightarrow> string" where
  "show_nat n =
     (if n < 10 then [''0123456789'' ! n]
      else show_nat (n div 10) @ [''0123456789'' ! (n mod 10)])"
  by pat_completeness auto
termination
  by (relation "measure id") auto

declare show_nat.simps [simp del]

text \<open>
  What the daemon and the file system answer during one build: the error of each call
  (\<open>None\<close>: the call succeeds), the name the daemon gives the new container, the exit
  status \<open>container.wait()\<close> reports, and whether the build directory exists afterwards.
\<close>

record DockerWorld =
  pull_error :: "string option"
  create_error :: "string option"
  container_name :: string
  attach_error :: "string option"
  start_error :: "string option"
  wait_outcome :: "string + nat"
  dist_exists :: bool
  path_join :: "string \<Rightarrow> string \<Rightarrow> string"
  remove_error :: "string option"

text \<open>The \<open>catch\<close> of the function: the error becomes a failed \<open>BuildResult\<close>.\<close>

definition build_failed :: "string \<Rightarrow> BuildResult" where
  "build_failed msg = \<lparr>br_success = False, br_artifactPath = None, br_error = Some msg\<rparr>"

text \<open>
  \<open>createArtifact\<close>: the build directory inside the workspace when it exists, else the
  workspace itself; it raises nothing. Node's \<open>path.join\<close>, which also normalises the
  joined path, is the world's \<open>path_join\<close>.
\<close>

definition createArtifact :: "DockerWorld \<Rightarrow> string \<Rightarrow> string option \<Rightarrow> string" where
  "createArtifact dw workspaceDir distDir =
     (if dist_exists dw then path_join dw workspaceDir (or_default distDir ''dist'')
      else workspaceDir)"

text \<open>
  \<open>buildWithLanguageContainer\<close> over the list of containers the daemon holds: the list
  afterwards, and the result. The progress lines passed to \<open>onLog\<close> are left out.
\<close>

definition buildWithLanguageContainer ::
  "DockerWorld \<Rightarrow> string list \<Rightarrow> string \<Rightarrow> string option \<Rightarrow> string list \<times> BuildResult" where
  "buildWithLanguageContainer dw containers workspaceDir distDir =
     (case pull_error dw of
        Some e \<Rightarrow> (containers, build_failed (''Failed to pull Docker image: '' @ e))
      | None \<Rightarrow>
     (case create_error dw of
        Some e \<Rightarrow> (containers, build_failed e)
      | None \<Rightarrow>
     (let created = containers @ [container_name dw] in
      case attach_error dw of
        Some e \<Rightarrow> (created, build_failed e)
      | None \<Rightarrow>
     (case start_error dw of
        Some e \<Rightarrow> (created, build_failed e)
      | None \<Rightarrow>
     (case wait_outcome dw of
        Inl e \<Rightarrow> (created, build_failed e)
      | Inr statusCode \<Rightarrow>
          if statusCode \<noteq> 0
          then (created, build_failed (''Build failed with exit code '' @ show_nat statusCode))
          else
            (let artifactPath = createArtifact dw workspaceDir distDir in
             case remove_error dw of
               Some e \<Rightarrow> (created, build_failed e)
             | None \<Rightarrow>
                 (remove1 (container_name dw) created,
                  \<lparr>br_success = True, br_artifactPath = Some artifactPath,
                   br_error = None\<rparr>)))))))"

text \<open>A daemon that answers every call; the build command exits with the given status.\<close>

definition docker_exit :: "nat \<Rightarrow> DockerWorld" where
  "docker_exit code =
     \<lparr>pull_error = None, create_error = None, container_name = ''c1'', attach_error = None,
      start_error = None, wait_outcome = Inr code, dist_exists = True,
      path_join = (\<lambda>dir name. dir @ ''/'' @ name), remove_error = None\<rparr>"

section \<open>Credential vault (CredentialService.encrypt, decrypt)\<close>

type_synonym byte = "8 word"

text \<open>
  \<open>Buffer.toString('hex')\<close> and the \<open>'hex'\<close> output encoding: two lower-case digits per
  byte.
\<close>

definition hex_digit :: "nat \<Rightarrow> char" where
  "hex_digit n = (if n < 10 then char_of (48 + n) else char_of (87 + n))"

definition hex_byte :: "byte \<Rightarrow> string" where
  "hex_byte b = [hex_digit (unat b div 16), hex_digit (unat b mod 16)]"

definition hex :: "byte list \<Rightarrow> string" where
  "hex bs = concat (map hex_byte bs)"

text \<open>
  \<open>Buffer.from(s, 'hex')\<close> and the \<open>'hex'\<close> input encoding: digits of either case, two
  per byte; decoding stops at the first pair that is not two hex digits.
\<close>

definition hex_value :: "char \<Rightarrow> nat option" where
  "hex_value c =
     (let n = (of_char c :: nat)
      in if 48 \<le> n \<and> n \<le> 57 then Some (n - 48)
         else if 97 \<le> n \<and> n \<le> 102 then Some (n - 87)
         else if 65 \<le> n \<and> n \<le> 70 then Some (n - 55)
         else None)"

fun unhex :: "string \<Rightarrow> byte list" where
  "unhex (a # b # rest) =
     (case hex_value a of
        None \<Rightarrow> []
      | Some x \<Rightarrow>
          (case hex_value b of
             None \<Rightarrow> []
           | Some y \<Rightarrow> of_nat (16 * x + y) # unhex rest))"
| "unhex [a] = []"
| "unhex [] = []"

text \<open>\<open>String.prototype.split\<close> on a one-character separator.\<close>

fun js_split :: "char \<Rightarrow> string \<Rightarrow> string list" where
  "js_split sep [] = [[]]"
| "js_split sep (x # xs) =
     (if x = sep then [] # js_split sep xs
      else (case js_split sep xs of
              p # ps \<Rightarrow> (x # p) # ps
            | [] \<Rightarrow> [[x]]))"

text \<open>\<open>parts[1]\<close>: \<open>undefined\<close> when the array is shorter.\<close>

fun second :: "'a list \<Rightarrow> 'a option" where
  "second (a # b # rest) = Some b"
| "second [a] = None"
| "second [] = None"

fun first :: "string list \<Rightarrow> string" where
  "first (a # rest) = a"
| "first [] = []"

text \<open>
  The parts of Node's \<open>crypto\<close> module the vault calls. The key derivation
  \<open>scryptSync\<close> and the AES-256 block permutation with its inverse are parameters; the
  mode named in \<open>createCipheriv('aes-256-cbc', key, iv)\<close>, cipher block chaining over
  16-byte blocks with PKCS#7 padding, is written out below.
\<close>

record Crypto =
  scryptSync :: "string \<Rightarrow> string \<Rightarrow> nat \<Rightarrow> byte list"
  block_encrypt :: "byte list \<Rightarrow> byte list \<Rightarrow> byte list"
  block_decrypt :: "byte list \<Rightarrow> byte list \<Rightarrow> byte list"

definition xor_block :: "byte list \<Rightarrow> byte list \<Rightarrow> byte list" where
  "xor_block a b = map2 (XOR) a b"

function blocks16 :: "byte list \<Rightarrow> byte list list" where
  "blocks16 xs = (if xs = [] then [] else take 16 xs # blocks16 (drop 16 xs))"
  by pat_completeness auto
termination
  by (relation "measure length") auto

declare blocks16.simps [simp del]

definition pkcs7_pad :: "byte list \<Rightarrow> byte list" where
  "pkcs7_pad xs = xs @ replicate (16 - length xs mod 16) (of_nat (16 - length xs mod 16))"

text \<open>
  Removal of the padding, as \<open>decipher.final\<close> does it: the last byte \<open>n\<close> must be
  between 1 and 16 and the last \<open>n\<close> bytes must all be \<open>n\<close>.
\<close>

definition pkcs7_unpad :: "byte list \<Rightarrow> byte list option" where
  "pkcs7_unpad xs =
     (if xs = [] then None
      else
        (let n = unat (last xs)
         in if n = 0 \<or> 16 < n \<or> length xs < n
               \<or> drop (length xs - n) xs \<noteq> replicate n (last xs)
            then None
            else Some (take (length xs - n) xs)))"

fun cbc_encrypt ::
  "(byte list \<Rightarrow> byte list) \<Rightarrow> byte list \<Rightarrow> byte list list \<Rightarrow> byte list list" where
  "cbc_encrypt enc prev [] = []"
| "cbc_encrypt enc prev (p # ps) =
     enc (xor_block p prev) # cbc_encrypt enc (enc (xor_block p prev)) ps"

fun cbc_decrypt ::
  "(byte list \<Rightarrow> byte list) \<Rightarrow> byte list \<Rightarrow> byte list list \<Rightarrow> byte list list" where
  "cbc_decrypt dec prev [] = []"
| "cbc_decrypt dec prev (c # cs) = xor_block (dec c) prev # cbc_decrypt dec c cs"

text \<open>
  \<open>encrypt(text)\<close>: \<open>iv\<close> is what \<open>crypto.randomBytes(16)\<close> returned, \<open>text\<close> the UTF-8
  bytes of the string. The result is \<open>hex(iv) + ':' + hex(ciphertext)\<close>.
\<close>

definition encrypt :: "Crypto \<Rightarrow> string \<Rightarrow> byte list \<Rightarrow> byte list \<Rightarrow> string" where
  "encrypt cr encryptionKey iv text =
     (let key = scryptSync cr encryptionKey ''salt'' 32;
          encrypted = hex (concat (cbc_encrypt (block_encrypt cr key) iv
                                     (blocks16 (pkcs7_pad text))))
      in hex iv @ '':'' @ encrypted)"

text \<open>What Node throws in \<open>decrypt\<close>.\<close>

datatype decrypt_error =
  InvalidInitializationVector | InvalidArgType | InvalidArgValue | WrongFinalBlockLength
| BadDecrypt

text \<open>
  \<open>decrypt(encryptedText)\<close>: \<open>createDecipheriv\<close> refuses an IV that is not 16 bytes,
  \<open>update\<close> refuses \<open>undefined\<close> data and a hex string of odd length, \<open>final\<close>
  refuses a ciphertext that is empty or not a multiple of the block size, and a padding
  that is not well-formed. The result stands for the returned string by its UTF-8 bytes:
  the bytes of the plaintext, which the code decodes as UTF-8 without raising.
\<close>

definition decrypt :: "Crypto \<Rightarrow> string \<Rightarrow> string \<Rightarrow> decrypt_error + byte list" where
  "decrypt cr encryptionKey encryptedText =
     (let parts = js_split CHR '':'' encryptedText;
          iv = unhex (first parts);
          key = scryptSync cr encryptionKey ''salt'' 32
      in if length iv \<noteq> 16 then Inl InvalidInitializationVector
         else
           (case second parts of
              None \<Rightarrow> Inl InvalidArgType
            | Some encrypted \<Rightarrow>
                if odd (length encrypted) then Inl InvalidArgValue
                else
                  (let data = unhex encrypted
                   in if data = [] \<or> length data mod 16 \<noteq> 0 then Inl WrongFinalBlockLength
                      else
                        (case pkcs7_unpad
                                (concat (cbc_decrypt (block_decrypt cr key) iv (blocks16 data))) of
                           None \<Rightarrow> Inl BadDecrypt
                         | Some text \<Rightarrow> Inr text))))"

text \<open>
  What the proofs ask of the block cipher: on 16-byte blocks, encryption returns a
  16-byte block and decryption under the same key undoes it.
\<close>

definition block_cipher_ok :: "Crypto \<Rightarrow> bool" where
  "block_cipher_ok cr =
     (\<forall>key b. length b = 16 \<longrightarrow>
        length (block_encrypt cr key b) = 16
        \<and> block_decrypt cr key (block_encrypt cr key b) = b)"

text \<open>
  A stand-in cipher for concrete runs: the key is 32 zero bytes and a block is encrypted
  by reversing it.
\<close>

definition toy_crypto :: Crypto where
  "toy_crypto = \<lparr>scryptSync = (\<lambda>password salt keylen. replicate keylen 0),
                 block_encrypt = (\<lambda>key b. rev b),
                 block_decrypt = (\<lambda>key b. rev b)\<rparr>"

definition iv0 :: "byte list" where
  "iv0 = [1, 2, 3, 4, 5, 6, 7, 8, 9, 10, 11, 12, 13, 14, 15, 16]"

text \<open>The bytes of the string \<open>{"t":1}\<close>.\<close>

definition plain0 :: "byte list" where
  "plain0 = [123, 34, 116, 34, 58, 49, 125]"

text \<open>
  A change made to a stored ciphertext from outside: the lowest bit of the first byte of
  the IV part is flipped, the rest of the text is kept.
\<close>

fun flip_first :: "byte list \<Rightarrow> byte list" where
  "flip_first [] = []"
| "flip_first (x # xs) = (x XOR 1) # xs"

definition tamper_iv :: "string \<Rightarrow> string" where
  "tamper_iv stored =
     (case js_split CHR '':'' stored of
        [] \<Rightarrow> stored
      | p # ps \<Rightarrow> hex (flip_first (unhex p)) @ concat (map (\<lambda>q. CHR '':'' # q) ps))"

section \<open>Automatic credential lookup (CredentialService.getFirstCredentialForProvider)\<close>











section \<open>Provider selection: results\<close>

text \<open>
  C3, as stated, fails: with the preference list \<open>[aws-amplify, netlify]\<close> and a React
  single-page application the code answers vercel (it looks at the first entry only,
  finds it unsupported and falls through to the defaults), where the five-step order of
  the specification answers netlify, the first registered entry.
\<close>

theorem C3_first_registered_counterexample:
  "selectedProvider None (Some [''aws-amplify'', ''netlify''])
       \<lparr>pa_type = ''spa'', framework = Some ''react'', hasPackageJson = True,
        hasBuildScript = True, buildCommand = Some ''vite build'',
        buildDirectory = Some ''dist'', isStaticHtml = False, estimatedSize = 3\<rparr>
     = ''vercel''
   \<and> spec_select None [''aws-amplify'', ''netlify'']
       \<lparr>pa_type = ''spa'', framework = Some ''react'', hasPackageJson = True,
        hasBuildScript = True, buildCommand = Some ''vite build'',
        buildDirectory = Some ''dist'', isStaticHtml = False, estimatedSize = 3\<rparr>
     = ''netlify''"
  by (simp add: selectedProvider_def selectProvider_def spec_select_def registered_def)

text \<open>
  C3, amended: selection is a total deterministic function. A truthy explicit provider is
  used as it is, registered or not. Otherwise the result is what the specification's
  steps 2 to 5 give when only the first entry of the preference list is considered, and
  it is always one of the two registered providers.
\<close>

theorem C3_selection_decision_order:
  "(truthy explicit \<longrightarrow> selectedProvider explicit prefs a = the explicit)
   \<and> (\<not> truthy explicit \<longrightarrow>
        selectedProvider explicit prefs a = spec_select None (first_preference prefs) a
        \<and> selectedProvider explicit prefs a \<in> set registered)"
proof (cases explicit)
  case None
  show ?thesis
  proof (cases prefs)
    case None
    with \<open>explicit = None\<close> show ?thesis
      by (simp add: selectedProvider_def selectProvider_def spec_select_def registered_def)
  next
    case (Some ps)
    with \<open>explicit = None\<close> show ?thesis
      by (cases ps)
         (simp_all add: selectedProvider_def selectProvider_def spec_select_def registered_def)
  qed
next
  case (Some p)
  show ?thesis
  proof (cases "p = []")
    case False
    with Some show ?thesis by (simp add: selectedProvider_def)
  next
    case True
    show ?thesis
    proof (cases prefs)
      case None
      with Some True show ?thesis
        by (simp add: selectedProvider_def selectProvider_def spec_select_def registered_def)
    next
      case (Some ps)
      with \<open>explicit = Some p\<close> True show ?thesis
        by (cases ps)
           (simp_all add: selectedProvider_def selectProvider_def spec_select_def registered_def)
    qed
  qed
qed

theorem C3_selection_decision_order_witness:
  "selectedProvider (Some ''aws-amplify'') None
       \<lparr>pa_type = ''static'', framework = Some ''html'', hasPackageJson = False,
        hasBuildScript = False, buildCommand = None, buildDirectory = None,
        isStaticHtml = True, estimatedSize = 1\<rparr> = ''aws-amplify''
   \<and> selectedProvider None (Some [''netlify'', ''vercel''])
       \<lparr>pa_type = ''next'', framework = Some ''next'', hasPackageJson = True,
        hasBuildScript = True, buildCommand = Some ''next build'',
        buildDirectory = Some ''.next'', isStaticHtml = False, estimatedSize = 9\<rparr> = ''netlify''"
  using C3_selection_decision_order [of "Some ''aws-amplify''" None
       "\<lparr>pa_type = ''static'', framework = Some ''html'', hasPackageJson = False,
        hasBuildScript = False, buildCommand = None, buildDirectory = None,
        isStaticHtml = True, estimatedSize = 1\<rparr>"]
     C3_selection_decision_order [of None "Some [''netlify'', ''vercel'']"
       "\<lparr>pa_type = ''next'', framework = Some ''next'', hasPackageJson = True,
        hasBuildScript = True, buildCommand = Some ''next build'',
        buildDirectory = Some ''.next'', isStaticHtml = False, estimatedSize = 9\<rparr>"]
  by (simp add: spec_select_def registered_def)

section \<open>Worker pipeline: results\<close>

lemma execute_failed_last: "fst (last (fst (execute_failed ups msg))) = Failed"
  by (simp add: execute_failed_def)

lemma executeDeployment_Inl_last:
  "snd (executeDeployment w job) = Inl msg \<Longrightarrow>
     fst (last (fst (executeDeployment w job))) = Failed"
  by (auto simp: executeDeployment_def Let_def execute_failed_def split: sum.splits if_splits)

lemma timeout_message_includes: "js_includes timeout_message ''timeout''"
  by (simp add: timeout_message_def)

lemmas pipeline_defs =
  processDeployment_def executeDeployment_def load_credentials_def build_step_def
  execute_failed_def on_error_def MAX_RETRIES_def selectedProvider_def selectProvider_def
  deployToProvider_def timeout_message_def no_data_def

text \<open>
  C1, as stated, fails: on the first attempt a failed build (exit code 1) and a missing
  credential are both thrown again to the queue, which retries the job. The worker has no
  classes of errors; it looks at the attempt count and at the word "timeout" only.
\<close>

theorem C1_build_error_retried_counterexample:
  "snd (processDeployment world_build_fails first_attempt)
     = Rethrown ''Build failed with exit code 1''
   \<and> snd (processDeployment world_no_credential first_attempt)
     = Rethrown ''No credentials available for vercel. Please add credentials in Settings.''"
  by (simp add: pipeline_defs world_build_fails_def world_no_credential_def react_app_def
        first_attempt_def)

text \<open>
  C1, amended: when the timer wins, the job completes without a retry and the deployment
  is marked failed with the timeout message. When \<open>executeDeployment\<close> throws a message,
  the worker asks for a retry exactly when fewer than two attempts were made and the
  message does not contain "timeout", whatever failed; and the last status written on
  that attempt is failed either way.
\<close>

theorem C1_retry_rule:
  "(timer_fires w = Some n \<longrightarrow>
      snd (processDeployment w job) = Completed
      \<and> (Failed, no_data\<lparr>sd_errorMessage := Some timeout_message\<rparr>)
          \<in> set (fst (processDeployment w job)))
   \<and> (timer_fires w = None \<and> snd (executeDeployment w (job_data job)) = Inl msg \<longrightarrow>
      snd (processDeployment w job) =
        (if attemptsMade job < 2 \<and> \<not> js_includes msg ''timeout''
         then Rethrown msg else Completed)
      \<and> fst (last (fst (processDeployment w job))) = Failed)"
proof (intro conjI impI)
  assume t: "timer_fires w = Some n"
  show "snd (processDeployment w job) = Completed"
    using t timeout_message_includes by (simp add: processDeployment_def on_error_def Let_def)
  show "(Failed, no_data\<lparr>sd_errorMessage := Some timeout_message\<rparr>)
          \<in> set (fst (processDeployment w job))"
    using t timeout_message_includes by (simp add: processDeployment_def on_error_def Let_def)
next
  assume a: "timer_fires w = None \<and> snd (executeDeployment w (job_data job)) = Inl msg"
  show "snd (processDeployment w job) =
        (if attemptsMade job < 2 \<and> \<not> js_includes msg ''timeout''
         then Rethrown msg else Completed)"
    using a by (simp add: processDeployment_def on_error_def Let_def MAX_RETRIES_def)
  show "fst (last (fst (processDeployment w job))) = Failed"
    using a executeDeployment_Inl_last [of w "job_data job" msg]
    by (simp add: processDeployment_def on_error_def Let_def MAX_RETRIES_def)
qed

theorem C1_retry_rule_witness:
  "timer_fires world_timer = Some 1
   \<and> snd (processDeployment world_timer first_attempt) = Completed
   \<and> timer_fires world_build_fails = None
   \<and> snd (executeDeployment world_build_fails (job_data third_attempt))
       = Inl ''Build failed with exit code 1''
   \<and> snd (processDeployment world_build_fails third_attempt) = Completed
   \<and> fst (last (fst (processDeployment world_build_fails third_attempt))) = Failed"
proof -
  have t: "timer_fires world_timer = Some 1"
    by (simp add: world_timer_def world_build_fails_def)
  have n: "timer_fires world_build_fails = None"
    by (simp add: world_build_fails_def)
  have e: "snd (executeDeployment world_build_fails (job_data third_attempt))
             = Inl ''Build failed with exit code 1''"
    by (simp add: pipeline_defs world_build_fails_def react_app_def third_attempt_def
          first_attempt_def)
  have a: "attemptsMade third_attempt = 2"
    by (simp add: third_attempt_def first_attempt_def)
  from C1_retry_rule [of world_timer 1 first_attempt] t
  have r1: "snd (processDeployment world_timer first_attempt) = Completed" by simp
  from C1_retry_rule [of world_build_fails 1 third_attempt "''Build failed with exit code 1''"]
    n e a
  have r2: "snd (processDeployment world_build_fails third_attempt) = Completed
            \<and> fst (last (fst (processDeployment world_build_fails third_attempt))) = Failed"
    by simp
  from t n e r1 r2 show ?thesis by simp
qed

text \<open>
  The status a reader of the store sees after a run is the last status the run wrote.
\<close>

lemma updateDeploymentStatus_status:
  "repo ident = Some d \<Longrightarrow>
     map_option status (updateDeploymentStatus repo ident st data now ident) = Some st"
  by (simp add: updateDeploymentStatus_def)

lemma updateDeploymentStatus_dom:
  "repo ident = Some d \<Longrightarrow> \<exists>d'. updateDeploymentStatus repo ident st data now ident = Some d'"
  by (simp add: updateDeploymentStatus_def)

lemma apply_updates_status:
  "repo ident = Some d \<Longrightarrow> updates \<noteq> [] \<Longrightarrow>
     map_option status (apply_updates repo ident now updates ident) = Some (fst (last updates))"
proof (induction updates arbitrary: repo d now)
  case Nil
  then show ?case by simp
next
  case (Cons u updates)
  obtain st data where u: "u = (st, data)" by (cases u)
  obtain d' where d': "updateDeploymentStatus repo ident st data now ident = Some d'"
    using updateDeploymentStatus_dom [of repo ident d st data now] Cons.prems(1) by blast
  show ?case
  proof (cases "updates = []")
    case True
    with u Cons.prems(1) show ?thesis by (simp add: updateDeploymentStatus_status)
  next
    case False
    from Cons.IH [of "updateDeploymentStatus repo ident st data now" d' "Suc now"] d' False u
    show ?thesis by simp
  qed
qed

text \<open>
  C2, as stated, fails: \<open>updateDeploymentStatus\<close> rejects nothing. A deployment that is
  stored as failed is moved back to cloning, which is what the retry of a job does after
  a failed first attempt.
\<close>

theorem C2_failed_to_cloning_counterexample:
  "map_option status
     (updateDeploymentStatus [''d1'' \<mapsto> failed_deployment] ''d1'' Cloning no_data 6 ''d1'')
     = Some Cloning
   \<and> map fst (fst (processDeployment world_build_fails first_attempt)
              @ fst (processDeployment world_build_fails (first_attempt\<lparr>attemptsMade := 1\<rparr>)))
     = [Cloning, Building, Failed, Cloning, Building, Failed]"
  by (simp add: updateDeploymentStatus_def failed_deployment_def pipeline_defs
        world_build_fails_def react_app_def first_attempt_def)

lemma executeDeployment_starts_cloning:
  "fst (hd (fst (executeDeployment w job))) = Cloning"
  by (simp add: executeDeployment_def Let_def execute_failed_def split: sum.splits)

lemma executeDeployment_Inl_last_update:
  "snd (executeDeployment w job) = Inl msg \<Longrightarrow>
     last (fst (executeDeployment w job)) = (Failed, failure_data (or_default (Some msg) ''Error''))"
  by (auto simp: executeDeployment_def Let_def execute_failed_def failure_data_def
           split: sum.splits if_splits)

lemma executeDeployment_forward:
  "sorted_wrt (\<lambda>a b. stage a < stage b) (map fst (fst (executeDeployment w job)))"
  by (simp add: executeDeployment_def Let_def execute_failed_def split: sum.splits)

lemma rethrown_last_failed:
  "snd (processDeployment w job) = Rethrown msg \<Longrightarrow>
     fst (last (fst (processDeployment w job))) = Failed"
proof -
  assume r: "snd (processDeployment w job) = Rethrown msg"
  have t: "timer_fires w = None"
  proof (cases "timer_fires w")
    case None
    then show ?thesis .
  next
    case (Some n)
    with r timeout_message_includes show ?thesis
      by (simp add: processDeployment_def on_error_def Let_def)
  qed
  with r obtain m where m: "snd (executeDeployment w (job_data job)) = Inl m"
    by (cases "snd (executeDeployment w (job_data job))")
       (simp_all add: processDeployment_def Let_def)
  from r t m have "fst (processDeployment w job) = fst (executeDeployment w (job_data job))"
    by (simp add: processDeployment_def on_error_def Let_def split: if_splits)
  with executeDeployment_Inl_last [OF m] show ?thesis by simp
qed

text \<open>
  C2, amended: \<open>updateDeploymentStatus\<close> makes no transition check. For an existing
  deployment, whatever its stored status, the status becomes the one passed and
  \<open>updatedAt\<close> the time of the call; \<open>startedAt\<close> is stamped exactly when the new
  status is building and \<open>completedAt\<close> exactly when it is success, failed or cancelled,
  the other timestamp being kept; the error message and the URL are taken from the patch
  when it has them; no other row changes. Within one run of \<open>executeDeployment\<close> the
  statuses written are cloning, building, deploying, success in this order, cut at the
  first failing step and closed by failed with the error message: after cloning when the
  clone fails, after building when the credentials or the build fail, after deploying
  when the provider fails; on success the URL is written with the last status. No run
  goes backward. Every run starts at cloning, and an attempt that asks for a retry has
  left the deployment failed, so the retry moves it from failed back to cloning.
\<close>

theorem C2_updates_forward_within_a_run:
  "map_option status (updateDeploymentStatus (repo(ident \<mapsto> d)) ident st data now ident)
     = Some st
   \<and> map_option updatedAt (updateDeploymentStatus (repo(ident \<mapsto> d)) ident st data now ident)
     = Some now
   \<and> map_option startedAt (updateDeploymentStatus (repo(ident \<mapsto> d)) ident st data now ident)
     = Some (if st = Building then Some now else startedAt d)
   \<and> map_option completedAt
       (updateDeploymentStatus (repo(ident \<mapsto> d)) ident st data now ident)
     = Some (if st \<in> set [Success, Failed, Cancelled] then Some now else completedAt d)
   \<and> map_option errorMessage
       (updateDeploymentStatus (repo(ident \<mapsto> d)) ident st data now ident)
     = Some (patched (sd_errorMessage data) (errorMessage d))
   \<and> map_option deploymentUrl
       (updateDeploymentStatus (repo(ident \<mapsto> d)) ident st data now ident)
     = Some (patched (sd_deploymentUrl data) (deploymentUrl d))
   \<and> (\<forall>other. other \<noteq> ident \<longrightarrow>
        updateDeploymentStatus (repo(ident \<mapsto> d)) ident st data now other = repo other)
   \<and> (\<forall>msg. clone_outcome w = Inl msg \<longrightarrow>
        executeDeployment w (job_data j)
          = ([(Cloning, no_data), (Failed, failure_data (or_default (Some msg) ''Error''))],
             Inl msg))
   \<and> (\<forall>workspaceDir msg.
        clone_outcome w = Inr workspaceDir
        \<and> load_credentials w (job_data j)
            (selectedProvider (explicitProvider (job_data j)) (preferProviders (job_data j))
               (analysis_outcome w)) = Inl msg \<longrightarrow>
        executeDeployment w (job_data j)
          = ([(Cloning, no_data), (Building, no_data),
              (Failed, failure_data (or_default (Some msg) ''Error''))],
             Inl msg))
   \<and> (\<forall>workspaceDir credentials msg.
        clone_outcome w = Inr workspaceDir
        \<and> load_credentials w (job_data j)
            (selectedProvider (explicitProvider (job_data j)) (preferProviders (job_data j))
               (analysis_outcome w)) = Inr credentials
        \<and> build_step w (analysis_outcome w) workspaceDir = Inl msg \<longrightarrow>
        executeDeployment w (job_data j)
          = ([(Cloning, no_data), (Building, no_data),
              (Failed, failure_data (or_default (Some msg) ''Error''))],
             Inl msg))
   \<and> (\<forall>workspaceDir credentials buildPath.
        clone_outcome w = Inr workspaceDir
        \<and> load_credentials w (job_data j)
            (selectedProvider (explicitProvider (job_data j)) (preferProviders (job_data j))
               (analysis_outcome w)) = Inr credentials
        \<and> build_step w (analysis_outcome w) workspaceDir = Inr buildPath
        \<and> \<not> dr_success (deployToProvider w
              (selectedProvider (explicitProvider (job_data j)) (preferProviders (job_data j))
                 (analysis_outcome w)) buildPath credentials) \<longrightarrow>
        map fst (fst (executeDeployment w (job_data j))) = [Cloning, Building, Deploying, Failed]
        \<and> (\<exists>msg. snd (executeDeployment w (job_data j)) = Inl msg
               \<and> last (fst (executeDeployment w (job_data j)))
                   = (Failed, failure_data (or_default (Some msg) ''Error''))))
   \<and> (\<forall>workspaceDir credentials buildPath.
        clone_outcome w = Inr workspaceDir
        \<and> load_credentials w (job_data j)
            (selectedProvider (explicitProvider (job_data j)) (preferProviders (job_data j))
               (analysis_outcome w)) = Inr credentials
        \<and> build_step w (analysis_outcome w) workspaceDir = Inr buildPath
        \<and> dr_success (deployToProvider w
              (selectedProvider (explicitProvider (job_data j)) (preferProviders (job_data j))
                 (analysis_outcome w)) buildPath credentials) \<longrightarrow>
        map fst (fst (executeDeployment w (job_data j))) = [Cloning, Building, Deploying, Success]
        \<and> \<not> isl (snd (executeDeployment w (job_data j)))
        \<and> sd_deploymentUrl (snd (last (fst (executeDeployment w (job_data j)))))
            = dr_url (projr (snd (executeDeployment w (job_data j)))))
   \<and> sorted_wrt (\<lambda>a b. stage a < stage b) (map fst (fst (executeDeployment w (job_data j))))
   \<and> fst (hd (fst (executeDeployment w (job_data j)))) = Cloning
   \<and> (\<forall>msg. snd (processDeployment w j) = Rethrown msg \<longrightarrow>
        fst (last (fst (processDeployment w j))) = Failed)"
proof -
  have store:
    "map_option status (updateDeploymentStatus (repo(ident \<mapsto> d)) ident st data now ident)
       = Some st"
    "map_option updatedAt (updateDeploymentStatus (repo(ident \<mapsto> d)) ident st data now ident)
       = Some now"
    "map_option startedAt (updateDeploymentStatus (repo(ident \<mapsto> d)) ident st data now ident)
       = Some (if st = Building then Some now else startedAt d)"
    "map_option completedAt
         (updateDeploymentStatus (repo(ident \<mapsto> d)) ident st data now ident)
       = Some (if st \<in> set [Success, Failed, Cancelled] then Some now else completedAt d)"
    "map_option errorMessage
         (updateDeploymentStatus (repo(ident \<mapsto> d)) ident st data now ident)
       = Some (patched (sd_errorMessage data) (errorMessage d))"
    "map_option deploymentUrl
         (updateDeploymentStatus (repo(ident \<mapsto> d)) ident st data now ident)
       = Some (patched (sd_deploymentUrl data) (deploymentUrl d))"
    by (simp_all add: updateDeploymentStatus_def)
  have others: "\<forall>other. other \<noteq> ident \<longrightarrow>
        updateDeploymentStatus (repo(ident \<mapsto> d)) ident st data now other = repo other"
    by (simp add: updateDeploymentStatus_def)
  have clone: "\<forall>msg. clone_outcome w = Inl msg \<longrightarrow>
        executeDeployment w (job_data j)
          = ([(Cloning, no_data), (Failed, failure_data (or_default (Some msg) ''Error''))],
             Inl msg)"
    by (simp add: executeDeployment_def execute_failed_def failure_data_def)
  have creds: "\<forall>workspaceDir msg.
        clone_outcome w = Inr workspaceDir
        \<and> load_credentials w (job_data j)
            (selectedProvider (explicitProvider (job_data j)) (preferProviders (job_data j))
               (analysis_outcome w)) = Inl msg \<longrightarrow>
        executeDeployment w (job_data j)
          = ([(Cloning, no_data), (Building, no_data),
              (Failed, failure_data (or_default (Some msg) ''Error''))],
             Inl msg)"
    by (simp add: executeDeployment_def execute_failed_def failure_data_def Let_def)
  have build: "\<forall>workspaceDir credentials msg.
        clone_outcome w = Inr workspaceDir
        \<and> load_credentials w (job_data j)
            (selectedProvider (explicitProvider (job_data j)) (preferProviders (job_data j))
               (analysis_outcome w)) = Inr credentials
        \<and> build_step w (analysis_outcome w) workspaceDir = Inl msg \<longrightarrow>
        executeDeployment w (job_data j)
          = ([(Cloning, no_data), (Building, no_data),
              (Failed, failure_data (or_default (Some msg) ''Error''))],
             Inl msg)"
    by (simp add: executeDeployment_def execute_failed_def failure_data_def Let_def)
  have deploy: "\<forall>workspaceDir credentials buildPath.
        clone_outcome w = Inr workspaceDir
        \<and> load_credentials w (job_data j)
            (selectedProvider (explicitProvider (job_data j)) (preferProviders (job_data j))
               (analysis_outcome w)) = Inr credentials
        \<and> build_step w (analysis_outcome w) workspaceDir = Inr buildPath
        \<and> \<not> dr_success (deployToProvider w
              (selectedProvider (explicitProvider (job_data j)) (preferProviders (job_data j))
                 (analysis_outcome w)) buildPath credentials) \<longrightarrow>
        map fst (fst (executeDeployment w (job_data j))) = [Cloning, Building, Deploying, Failed]
        \<and> (\<exists>msg. snd (executeDeployment w (job_data j)) = Inl msg
               \<and> last (fst (executeDeployment w (job_data j)))
                   = (Failed, failure_data (or_default (Some msg) ''Error'')))"
    by (simp add: executeDeployment_def execute_failed_def failure_data_def Let_def)
  have success: "\<forall>workspaceDir credentials buildPath.
        clone_outcome w = Inr workspaceDir
        \<and> load_credentials w (job_data j)
            (selectedProvider (explicitProvider (job_data j)) (preferProviders (job_data j))
               (analysis_outcome w)) = Inr credentials
        \<and> build_step w (analysis_outcome w) workspaceDir = Inr buildPath
        \<and> dr_success (deployToProvider w
              (selectedProvider (explicitProvider (job_data j)) (preferProviders (job_data j))
                 (analysis_outcome w)) buildPath credentials) \<longrightarrow>
        map fst (fst (executeDeployment w (job_data j))) = [Cloning, Building, Deploying, Success]
        \<and> \<not> isl (snd (executeDeployment w (job_data j)))
        \<and> sd_deploymentUrl (snd (last (fst (executeDeployment w (job_data j)))))
            = dr_url (projr (snd (executeDeployment w (job_data j))))"
    by (simp add: executeDeployment_def no_data_def Let_def)
  have retry: "\<forall>msg. snd (processDeployment w j) = Rethrown msg \<longrightarrow>
        fst (last (fst (processDeployment w j))) = Failed"
    using rethrown_last_failed by blast
  from store others clone creds build deploy success executeDeployment_forward
    executeDeployment_starts_cloning retry
  show ?thesis by (intro conjI)
qed


theorem C2_updates_forward_within_a_run_witness:
  "map_option startedAt
       (updateDeploymentStatus [''d1'' \<mapsto> failed_deployment] ''d1'' Building no_data 6 ''d1'')
     = Some (Some 6)
   \<and> map_option completedAt
       (updateDeploymentStatus [''d1'' \<mapsto> failed_deployment] ''d1'' Building no_data 6 ''d1'')
     = Some (Some 5)
   \<and> map_option completedAt
       (updateDeploymentStatus [''d1'' \<mapsto> failed_deployment] ''d1'' Success no_data 9 ''d1'')
     = Some (Some 9)
   \<and> updateDeploymentStatus [''d1'' \<mapsto> failed_deployment] ''d1'' Building no_data 6 ''d2''
     = None
   \<and> map fst (fst (executeDeployment world_clone_fails (job_data first_attempt)))
     = [Cloning, Failed]
   \<and> map fst (fst (executeDeployment world_no_credential (job_data first_attempt)))
     = [Cloning, Building, Failed]
   \<and> map fst (fst (executeDeployment world_build_fails (job_data first_attempt)))
     = [Cloning, Building, Failed]
   \<and> map fst (fst (executeDeployment world_deploy_fails (job_data first_attempt)))
     = [Cloning, Building, Deploying, Failed]
   \<and> map fst (fst (executeDeployment world_success (job_data first_attempt)))
     = [Cloning, Building, Deploying, Success]
   \<and> snd (processDeployment world_build_fails first_attempt)
     = Rethrown ''Build failed with exit code 1''
   \<and> fst (last (fst (processDeployment world_build_fails first_attempt))) = Failed"
proof -
  note worlds = world_build_fails_def world_no_credential_def world_clone_fails_def
    world_success_def world_deploy_fails_def react_app_def first_attempt_def
  note steps = load_credentials_def build_step_def deployToProvider_def selectedProvider_def
    selectProvider_def
  let ?sel = "''vercel''"
  let ?ws = "''/tmp/deployify-workspaces/workspace_1''"
  note B = C2_updates_forward_within_a_run
    [of Map.empty "''d1''" failed_deployment Building no_data 6 world_build_fails first_attempt]
  note S = C2_updates_forward_within_a_run
    [of Map.empty "''d1''" failed_deployment Success no_data 9 world_success first_attempt]
  note C = C2_updates_forward_within_a_run
    [of Map.empty "''d1''" failed_deployment Building no_data 6 world_clone_fails first_attempt]
  note N = C2_updates_forward_within_a_run
    [of Map.empty "''d1''" failed_deployment Building no_data 6 world_no_credential first_attempt]
  note D = C2_updates_forward_within_a_run
    [of Map.empty "''d1''" failed_deployment Building no_data 6 world_deploy_fails first_attempt]
  have s1: "map_option startedAt
       (updateDeploymentStatus [''d1'' \<mapsto> failed_deployment] ''d1'' Building no_data 6 ''d1'')
     = Some (Some 6)"
    using B by simp
  have s2: "map_option completedAt
       (updateDeploymentStatus [''d1'' \<mapsto> failed_deployment] ''d1'' Building no_data 6 ''d1'')
     = Some (Some 5)"
    using B by (simp add: failed_deployment_def)
  have s3: "map_option completedAt
       (updateDeploymentStatus [''d1'' \<mapsto> failed_deployment] ''d1'' Success no_data 9 ''d1'')
     = Some (Some 9)"
    using S by simp
  have other: "''d2'' \<noteq> ''d1''" by simp
  have s4: "updateDeploymentStatus [''d1'' \<mapsto> failed_deployment] ''d1'' Building no_data 6 ''d2''
     = None"
    using B other by simp
  have c0: "clone_outcome world_clone_fails = Inl ''Failed to clone repository: not found''"
    by (simp add: worlds)
  have r1: "map fst (fst (executeDeployment world_clone_fails (job_data first_attempt)))
     = [Cloning, Failed]"
    using C c0 by simp
  have n0: "clone_outcome world_no_credential = Inr ?ws
      \<and> load_credentials world_no_credential (job_data first_attempt)
            (selectedProvider (explicitProvider (job_data first_attempt))
               (preferProviders (job_data first_attempt))
               (analysis_outcome world_no_credential))
          = Inl ''No credentials available for vercel. Please add credentials in Settings.''"
    by (simp add: worlds steps)
  have r2: "map fst (fst (executeDeployment world_no_credential (job_data first_attempt)))
     = [Cloning, Building, Failed]"
    using N n0 by simp
  have b0: "clone_outcome world_build_fails = Inr ?ws
      \<and> load_credentials world_build_fails (job_data first_attempt)
            (selectedProvider (explicitProvider (job_data first_attempt))
               (preferProviders (job_data first_attempt))
               (analysis_outcome world_build_fails)) = Inr ''{token}''
      \<and> build_step world_build_fails (analysis_outcome world_build_fails) ?ws
          = Inl ''Build failed with exit code 1''"
    by (simp add: worlds steps)
  have r3: "map fst (fst (executeDeployment world_build_fails (job_data first_attempt)))
     = [Cloning, Building, Failed]"
    using B b0 by simp
  have d0: "clone_outcome world_deploy_fails = Inr ?ws
      \<and> load_credentials world_deploy_fails (job_data first_attempt)
            (selectedProvider (explicitProvider (job_data first_attempt))
               (preferProviders (job_data first_attempt))
               (analysis_outcome world_deploy_fails)) = Inr ''{token}''
      \<and> build_step world_deploy_fails (analysis_outcome world_deploy_fails) ?ws
          = Inr (Some ''/tmp/deployify-workspaces/workspace_1/dist'')
      \<and> \<not> dr_success (deployToProvider world_deploy_fails
              (selectedProvider (explicitProvider (job_data first_attempt))
                 (preferProviders (job_data first_attempt))
                 (analysis_outcome world_deploy_fails))
              (Some ''/tmp/deployify-workspaces/workspace_1/dist'') ''{token}'')"
    by (simp add: worlds steps)
  have r4: "map fst (fst (executeDeployment world_deploy_fails (job_data first_attempt)))
     = [Cloning, Building, Deploying, Failed]"
    using D d0 by blast
  have u0: "clone_outcome world_success = Inr ?ws
      \<and> load_credentials world_success (job_data first_attempt)
            (selectedProvider (explicitProvider (job_data first_attempt))
               (preferProviders (job_data first_attempt))
               (analysis_outcome world_success)) = Inr ''{token}''
      \<and> build_step world_success (analysis_outcome world_success) ?ws
          = Inr (Some ''/tmp/deployify-workspaces/workspace_1/dist'')
      \<and> dr_success (deployToProvider world_success
              (selectedProvider (explicitProvider (job_data first_attempt))
                 (preferProviders (job_data first_attempt))
                 (analysis_outcome world_success))
              (Some ''/tmp/deployify-workspaces/workspace_1/dist'') ''{token}'')"
    by (simp add: worlds steps)
  have r5: "map fst (fst (executeDeployment world_success (job_data first_attempt)))
     = [Cloning, Building, Deploying, Success]"
    using S u0 by blast
  have t0: "snd (processDeployment world_build_fails first_attempt)
     = Rethrown ''Build failed with exit code 1''"
    by (simp add: pipeline_defs worlds)
  have r6: "fst (last (fst (processDeployment world_build_fails first_attempt))) = Failed"
    using B t0 by blast
  from s1 s2 s3 s4 r1 r2 r3 r4 r5 t0 r6 show ?thesis by (intro conjI)
qed

section \<open>Repository clone: results\<close>

lemma try_branches_all_fail:
  "\<forall>i < length bs. attempt_error cw (k + i) (Some (bs ! i)) \<noteq> None \<Longrightarrow>
     try_branches cw k bs = (concat (map (\<lambda>b. [Clone b, Wipe]) (map Some bs)), False)"
proof (induction bs arbitrary: k)
  case Nil
  then show ?case by simp
next
  case (Cons b bs)
  from Cons.prems have h: "attempt_error cw k (Some b) \<noteq> None" by auto
  from Cons.prems have "\<forall>i < length bs. attempt_error cw (Suc k + i) (Some (bs ! i)) \<noteq> None"
    by auto
  from Cons.IH [OF this] h show ?case by (auto split: option.splits)
qed

text \<open>
  When every attempt fails, the attempts follow \<open>candidates\<close>, each one is followed by a
  removal of the workspace, and the error thrown carries the message of the first and of
  the last attempt.
\<close>

lemma cloneRepository_total_failure:
  assumes "setup_error cw = None" and "\<forall>k b. attempt_error cw k b \<noteq> None"
  shows "fst (cloneRepository cw branch ws)
           = concat (map (\<lambda>b. [Clone b, Wipe]) (candidates branch))
    \<and> snd (cloneRepository cw branch ws) =
        Inl (''Failed to clone repository: Unable to clone repository. Original error: '' @
             the (attempt_error cw 0 (Some branch)) @ '', Final error: '' @
             the (attempt_error cw (length (candidates branch) - 1) None))"
proof -
  have "try_branches cw 1 (branchesToTry branch)
          = (concat (map (\<lambda>b. [Clone b, Wipe]) (map Some (branchesToTry branch))), False)"
    using assms(2) by (intro try_branches_all_fail) simp
  moreover obtain e0 where "attempt_error cw 0 (Some branch) = Some e0"
    using assms(2) by fastforce
  moreover obtain ef where "attempt_error cw (Suc (length (branchesToTry branch))) None = Some ef"
    using assms(2) by fastforce
  ultimately show ?thesis
    using assms(1) by (simp add: cloneRepository_def candidates_def)
qed

text \<open>
  C5 at the failing input: the requested branch is master and no attempt succeeds. The
  code tries master a second time (only main is left out of the fallback list, and only
  when main was requested), where the claim's order skips the branch already tried. The
  rest of the claim holds on this run: the workspace is wiped after every attempt, the
  last attempt names no branch, and the error carries both messages.
\<close>

theorem C5_master_tried_twice:
  "attempted (fst (cloneRepository world_unreachable ''master'' ''/tmp/ws''))
     = [Some ''master'', Some ''main'', Some ''master'', Some ''develop'', Some ''dev'', None]
   \<and> spec_candidates ''master''
     = [Some ''master'', Some ''main'', Some ''develop'', Some ''dev'', None]
   \<and> fst (cloneRepository world_unreachable ''master'' ''/tmp/ws'')
     = [Clone (Some ''master''), Wipe, Clone (Some ''main''), Wipe, Clone (Some ''master''), Wipe,
        Clone (Some ''develop''), Wipe, Clone (Some ''dev''), Wipe, Clone None, Wipe]
   \<and> snd (cloneRepository world_unreachable ''master'' ''/tmp/ws'')
     = Inl (''Failed to clone repository: Unable to clone repository. '' @
            ''Original error: Remote branch not found, Final error: Remote branch not found'')"
  by (simp add: cloneRepository_def world_unreachable_def branchesToTry_def commonBranches_def
        spec_candidates_def)

section \<open>Log bus: results\<close>

lemmas log_defs =
  addLog_def store_in_memory_def persistLog_def persist_write_def notifySubscribers_def
  getLogs_def subscribeToLogs_def replay_def streamLogs_def Let_def

lemma delivered_append:
  "delivered (es @ fs) observer = delivered es observer @ delivered fs observer"
  by (induction es observer rule: delivered.induct) simp_all

lemma delivered_replay: "delivered (map (Next observer) logs) observer = logs"
  by (induction logs) simp_all

lemma delivered_notify:
  "delivered (map (\<lambda>callback. Next callback log) subs) observer
     = replicate (count_list subs observer) log"
  by (induction subs) simp_all

text \<open>
  C6, as stated, fails in its second half: with one subscriber and a disk that is full,
  \<open>addLog\<close> returns normally, nothing is written, and the subscriber is handed the log
  all the same. \<open>persistLog\<close> catches the error of the write.
\<close>

theorem C6_failed_write_still_notifies_counterexample:
  "\<not> isl (addLog one_subscriber ''d1'' Info ''Cloning repository...'' (Some ''clone'')
              ''d1-1001-def'' 1001 (Some ''ENOSPC: no space left on device''))
   \<and> files (projr (addLog one_subscriber ''d1'' Info ''Cloning repository...'' (Some ''clone'')
              ''d1-1001-def'' 1001 (Some ''ENOSPC: no space left on device''))) ''d1'' = None
   \<and> delivered (history (projr (addLog one_subscriber ''d1'' Info ''Cloning repository...''
              (Some ''clone'') ''d1-1001-def'' 1001 (Some ''ENOSPC: no space left on device''))))
        7 = [log2]"
  by (simp add: log_defs make_log_def one_subscriber_def log2_def)

text \<open>
  C6, amended: every call of \<open>addLog\<close> returns normally. The write to the log file is
  attempted before any subscriber is notified: the events it adds are the outcome of the
  write followed by one notification per registered callback, in registration order,
  whether the write went through or not. The file grows by the log exactly when the write
  went through, and the log is in memory either way.
\<close>

theorem C6_append_persists_then_notifies:
  "\<not> isl (addLog st d lvl msg stp ident now write_error)
   \<and> history (projr (addLog st d lvl msg stp ident now write_error))
       = history st
         @ [case write_error of
              None \<Rightarrow> PersistOk d (make_log d lvl msg stp ident now)
            | Some e \<Rightarrow> PersistFailed d e]
         @ map (\<lambda>callback. Next callback (make_log d lvl msg stp ident now))
             (entries (logSubscribers st d))
   \<and> files (projr (addLog st d lvl msg stp ident now write_error)) d
       = (case write_error of
            None \<Rightarrow> Some (entries (files st d) @ [make_log d lvl msg stp ident now])
          | Some e \<Rightarrow> files st d)
   \<and> deploymentLogs (projr (addLog st d lvl msg stp ident now write_error)) d
       = Some (entries (deploymentLogs st d) @ [make_log d lvl msg stp ident now])"
  by (cases write_error) (simp_all add: log_defs)

text \<open>
  When nothing else runs between the subscription and the next append, a new observer is
  handed the existing logs and then the appended one.
\<close>

lemma stream_then_append:
  assumes "observer \<notin> set (entries (logSubscribers st d))"
  shows "delivered (history (projr (addLog (streamLogs st d observer) d lvl msg stp ident now we)))
           observer
     = delivered (history st) observer @ fst (getLogs st d) @ [make_log d lvl msg stp ident now]"
  using assms
  by (cases we)
     (auto simp: log_defs delivered_append delivered_replay delivered_notify split: option.splits)

text \<open>
  C7 at the failing inputs. First run: \<open>log1\<close> is logged, an append of \<open>log2\<close> has pushed
  it to memory and waits for its file write, and a client opens the stream at that
  moment. The replay reads memory and sends \<open>log1, log2\<close>; when the write returns, the
  append notifies the new subscriber and \<open>log2\<close> is sent again. What the observer gets
  is not a subsequence of the appends. Second run: a fresh process finds the file of an
  earlier one holding \<open>log1\<close>; after one append of \<open>log2\<close> memory holds \<open>log2\<close> alone,
  and a stream opened then replays \<open>log2\<close> only, not the full log on disk.
\<close>

theorem C7_replay_and_live_overlap:
  "delivered (history
      (notifySubscribers
        (persistLog
          (streamLogs (store_in_memory after_log1 ''d1'' log2) ''d1'' 7)
          ''d1'' log2 None)
        ''d1'' log2)) 7 = [log1, log2, log2]
   \<and> \<not> is_subsequence [log1, log2, log2] [log1, log2]
   \<and> files (projr (addLog after_restart ''d1'' Info ''Cloning repository...'' (Some ''clone'')
               ''d1-1001-def'' 1001 None)) ''d1'' = Some [log1, log2]
   \<and> delivered (history (streamLogs
        (projr (addLog after_restart ''d1'' Info ''Cloning repository...'' (Some ''clone'')
               ''d1-1001-def'' 1001 None)) ''d1'' 7)) 7 = [log2]"
  by (simp add: log_defs make_log_def after_log1_def after_restart_def log1_def log2_def)

section \<open>Container build: results\<close>

text \<open>
  The build container outlives the call exactly when it was created and the build did
  not succeed: \<open>container.remove()\<close> stands on the success path only.
\<close>

lemma container_left_behind_iff:
  assumes "container_name dw \<notin> set containers"
  shows "(container_name dw \<in> set (fst (buildWithLanguageContainer dw containers ws dist)))
     = (pull_error dw = None \<and> create_error dw = None
        \<and> \<not> br_success (snd (buildWithLanguageContainer dw containers ws dist)))"
  using assms
  by (auto simp: buildWithLanguageContainer_def build_failed_def Let_def remove1_append
           split: option.splits sum.splits)

text \<open>
  C8 at the failing input: the build command exits with status 1. The function throws
  before it reaches \<open>container.remove()\<close>, the \<open>catch\<close> only reports the error, and the
  container \<open>c1\<close> stays with the daemon. With exit status 0 the same container is removed.
\<close>

theorem C8_container_kept_on_nonzero_exit:
  "buildWithLanguageContainer (docker_exit 1) [] ''/tmp/ws'' (Some ''dist'')
     = ([''c1''], \<lparr>br_success = False, br_artifactPath = None,
                   br_error = Some ''Build failed with exit code 1''\<rparr>)
   \<and> buildWithLanguageContainer (docker_exit 0) [] ''/tmp/ws'' (Some ''dist'')
     = ([], \<lparr>br_success = True, br_artifactPath = Some ''/tmp/ws/dist'', br_error = None\<rparr>)"
  by (simp add: buildWithLanguageContainer_def docker_exit_def build_failed_def
        createArtifact_def show_nat.simps)

section \<open>Credential vault: results\<close>

lemma of_char_hex_digit:
  "n < 16 \<Longrightarrow> (of_char (hex_digit n) :: nat) = (if n < 10 then 48 + n else 87 + n)"
  by (simp add: hex_digit_def)

lemma hex_value_hex_digit: "n < 16 \<Longrightarrow> hex_value (hex_digit n) = Some n"
  by (simp add: hex_value_def of_char_hex_digit Let_def)

lemma hex_digit_not_colon: "n < 16 \<Longrightarrow> hex_digit n \<noteq> CHR '':''"
proof
  assume n: "n < 16" and "hex_digit n = CHR '':''"
  then have "(of_char (hex_digit n) :: nat) = of_char CHR '':''" by simp
  with n show False by (simp add: of_char_hex_digit split: if_splits)
qed

lemma byte_split: "of_nat (16 * (unat b div 16) + unat b mod 16) = (b :: byte)"
  by simp

lemma unat_byte_div: "unat (b :: byte) div 16 < 16"
proof -
  have "unat b < 256" using unsigned_less [of b] by simp
  then show ?thesis by simp
qed

lemma unhex_hex_byte: "unhex (hex_byte b @ rest) = b # unhex rest"
  by (simp add: hex_byte_def hex_value_hex_digit unat_byte_div)

lemma unhex_hex: "unhex (hex bs) = bs"
  by (induction bs) (simp_all add: hex_def unhex_hex_byte)

lemma colon_not_in_hex_byte: "CHR '':'' \<notin> set (hex_byte b)"
proof -
  have "hex_digit (unat b div 16) \<noteq> CHR '':''"
    by (rule hex_digit_not_colon) (rule unat_byte_div)
  moreover have "hex_digit (unat b mod 16) \<noteq> CHR '':''"
    by (rule hex_digit_not_colon) simp
  ultimately show ?thesis by (auto simp: hex_byte_def)
qed

lemma colon_not_in_hex: "CHR '':'' \<notin> set (hex bs)"
  by (induction bs) (simp_all add: hex_def colon_not_in_hex_byte)

lemma js_split_no_sep: "sep \<notin> set s \<Longrightarrow> js_split sep s = [s]"
  by (induction s) auto

lemma js_split_at_sep: "sep \<notin> set a \<Longrightarrow> js_split sep (a @ sep # b) = a # js_split sep b"
  by (induction a) auto

lemma length_hex: "length (hex bs) = 2 * length bs"
  by (induction bs) (simp_all add: hex_def hex_byte_def)

lemma even_length_hex: "even (length (hex bs))"
  by (simp add: length_hex)



lemma blocks16_Nil: "blocks16 [] = []"
  by (simp add: blocks16.simps)

lemma blocks16_block: "length b = 16 \<Longrightarrow> blocks16 (b @ rest) = b # blocks16 rest"
  by (subst blocks16.simps) auto

lemma blocks16_concat: "\<forall>b \<in> set bs. length b = 16 \<Longrightarrow> blocks16 (concat bs) = bs"
  by (induction bs) (simp_all add: blocks16_Nil blocks16_block)

lemma concat_blocks16: "concat (blocks16 xs) = xs"
proof (induction xs rule: blocks16.induct)
  case (1 xs)
  show ?case
  proof (cases "xs = []")
    case True
    then show ?thesis by (simp add: blocks16_Nil)
  next
    case False
    with 1 show ?thesis by (subst blocks16.simps) simp
  qed
qed

lemma blocks16_lengths:
  "length xs mod 16 = 0 \<Longrightarrow> b \<in> set (blocks16 xs) \<Longrightarrow> length b = 16"
proof (induction xs rule: blocks16.induct)
  case (1 xs)
  show ?case
  proof (cases "xs = []")
    case True
    with "1.prems" show ?thesis by (simp add: blocks16_Nil)
  next
    case False
    from False "1.prems"(1) have len: "16 \<le> length xs"
      by (cases "length xs < 16") auto
    then have m: "length (drop 16 xs) mod 16 = 0"
      using "1.prems"(1) le_mod_geq [of 16 "length xs"] by simp
    have "blocks16 xs = take 16 xs # blocks16 (drop 16 xs)"
      using False by (subst blocks16.simps) simp
    with "1.prems"(2) have "b = take 16 xs \<or> b \<in> set (blocks16 (drop 16 xs))" by simp
    then show ?thesis
    proof
      assume "b = take 16 xs"
      with len show ?thesis by simp
    next
      assume "b \<in> set (blocks16 (drop 16 xs))"
      with "1.IH" [OF False m] show ?thesis by simp
    qed
  qed
qed

lemma length_xor_block: "length a = length b \<Longrightarrow> length (xor_block a b) = length a"
  by (simp add: xor_block_def)

lemma xor_block_cancel: "length a = length b \<Longrightarrow> xor_block (xor_block a b) b = a"
proof (induction a arbitrary: b)
  case Nil
  then show ?case by (simp add: xor_block_def)
next
  case (Cons x a)
  then obtain y b' where b: "b = y # b'" by (cases b) auto
  with Cons have "xor_block (xor_block a b') b' = a" by simp
  with b show ?case by (simp add: xor_block_def xor.assoc)
qed

lemma cbc_roundtrip:
  assumes enc: "\<And>b. length b = 16 \<Longrightarrow> length (enc b) = 16 \<and> dec (enc b) = b"
  shows "length prev = 16 \<Longrightarrow> \<forall>p \<in> set ps. length p = 16 \<Longrightarrow>
           cbc_decrypt dec prev (cbc_encrypt enc prev ps) = ps"
proof (induction ps arbitrary: prev)
  case Nil
  then show ?case by simp
next
  case (Cons p ps)
  then have lx: "length (xor_block p prev) = 16" by (simp add: length_xor_block)
  have e: "length (enc (xor_block p prev)) = 16" "dec (enc (xor_block p prev)) = xor_block p prev"
    using enc [OF lx] by simp_all
  have "cbc_decrypt dec (enc (xor_block p prev)) (cbc_encrypt enc (enc (xor_block p prev)) ps) = ps"
    using Cons.IH [OF e(1)] Cons.prems(2) by simp
  moreover have "xor_block (xor_block p prev) prev = p"
    using Cons.prems by (simp add: xor_block_cancel)
  ultimately show ?case by (simp add: e(2))
qed

lemma cbc_encrypt_lengths:
  assumes enc: "\<And>b. length b = 16 \<Longrightarrow> length (enc b) = 16"
  shows "length prev = 16 \<Longrightarrow> \<forall>p \<in> set ps. length p = 16 \<Longrightarrow>
           \<forall>c \<in> set (cbc_encrypt enc prev ps). length c = 16"
proof (induction ps arbitrary: prev)
  case Nil
  then show ?case by simp
next
  case (Cons p ps)
  then have lx: "length (xor_block p prev) = 16" by (simp add: length_xor_block)
  have e: "length (enc (xor_block p prev)) = 16" using enc [OF lx] .
  from Cons.IH [OF e] Cons.prems(2) e show ?case by simp
qed


lemma length_pkcs7_pad: "length (pkcs7_pad xs) mod 16 = 0"
proof -
  have "length xs mod 16 < 16" by simp
  then have "length xs + (16 - length xs mod 16) = 16 * (length xs div 16) + 16"
    using div_mult_mod_eq [of "length xs" 16] by linarith
  then have "length (pkcs7_pad xs) = 16 * (length xs div 16) + 16"
    by (simp add: pkcs7_pad_def)
  then show ?thesis by simp
qed

lemma pkcs7_pad_not_Nil: "pkcs7_pad xs \<noteq> []"
  by (simp add: pkcs7_pad_def)

lemma unat_pad_byte: "n \<le> 16 \<Longrightarrow> unat (of_nat n :: byte) = n"
  by (simp add: unat_of_nat)

lemma pkcs7_unpad_append:
  assumes "0 < n" and "n \<le> 16"
  shows "pkcs7_unpad (xs @ replicate n (of_nat n)) = Some xs"
proof -
  define v :: byte where "v = of_nat n"
  have u: "unat v = n" using assms by (simp add: v_def unat_pad_byte)
  have l: "last (xs @ replicate n v) = v" using assms by simp
  have ne: "xs @ replicate n v \<noteq> []" using assms by simp
  have "pkcs7_unpad (xs @ replicate n v) = Some xs"
    unfolding pkcs7_unpad_def Let_def l u using assms ne by simp
  then show ?thesis by (simp add: v_def)
qed

lemma pkcs7_roundtrip: "pkcs7_unpad (pkcs7_pad xs) = Some xs"
  unfolding pkcs7_pad_def by (rule pkcs7_unpad_append) simp_all

lemma split_ciphertext:
  "js_split CHR '':'' (hex iv @ CHR '':'' # hex ct) = [hex iv, hex ct]"
  using js_split_at_sep [OF colon_not_in_hex, of iv "hex ct"]
  by (simp add: js_split_no_sep [OF colon_not_in_hex])

lemma padded_blocks_16: "\<forall>p \<in> set (blocks16 (pkcs7_pad text)). length p = 16"
  using blocks16_lengths [OF length_pkcs7_pad] by blast

lemma decrypt_encrypt:
  assumes ok: "block_cipher_ok cr" and iv: "length iv = 16"
  shows "decrypt cr k (encrypt cr k iv text) = Inr text"
proof -
  define key where "key = scryptSync cr k ''salt'' 32"
  define cs where "cs = cbc_encrypt (block_encrypt cr key) iv (blocks16 (pkcs7_pad text))"
  have enc: "\<And>b. length b = 16 \<Longrightarrow>
      length (block_encrypt cr key b) = 16 \<and> block_decrypt cr key (block_encrypt cr key b) = b"
    using ok by (simp add: block_cipher_ok_def)
  have cl: "\<forall>c \<in> set cs. length c = 16"
    using enc iv padded_blocks_16 unfolding cs_def by (intro cbc_encrypt_lengths) simp_all
  have ne: "cs \<noteq> []"
    using pkcs7_pad_not_Nil [of "text"] unfolding cs_def
    by (subst blocks16.simps) simp
  have data_ne: "concat cs \<noteq> []"
    using ne cl by (cases cs) auto
  have "length (concat cs) = 16 * length cs"
    using cl by (induction cs) simp_all
  then have data_len: "length (concat cs) mod 16 = 0" by simp
  have dec_ok: "cbc_decrypt (block_decrypt cr key) iv cs = blocks16 (pkcs7_pad text)"
    using enc iv padded_blocks_16 unfolding cs_def by (intro cbc_roundtrip) simp_all
  have e: "encrypt cr k iv text = hex iv @ CHR '':'' # hex (concat cs)"
    by (simp add: encrypt_def key_def cs_def Let_def)
  show ?thesis
    using iv data_ne data_len dec_ok
    unfolding e decrypt_def Let_def split_ciphertext
    by (simp add: unhex_hex key_def [symmetric] blocks16_concat [OF cl] concat_blocks16
          pkcs7_roundtrip even_length_hex)
qed

lemma hex_inj: "hex a = hex b \<Longrightarrow> a = b"
proof -
  assume "hex a = hex b"
  then have "unhex (hex a) = unhex (hex b)" by simp
  then show "a = b" by (simp add: unhex_hex)
qed

lemma encrypt_embeds_iv:
  assumes "iv1 \<noteq> iv2"
  shows "encrypt cr k iv1 text \<noteq> encrypt cr k' iv2 text'"
proof
  assume "encrypt cr k iv1 text = encrypt cr k' iv2 text'"
  then have "js_split CHR '':'' (encrypt cr k iv1 text) = js_split CHR '':'' (encrypt cr k' iv2 text')"
    by simp
  then have "hex iv1 = hex iv2"
    by (simp add: encrypt_def Let_def split_ciphertext)
  with assms show False using hex_inj by blast
qed

text \<open>
  C4: for every plaintext, decrypting what \<open>encrypt\<close> returned gives the plaintext back,
  and two calls whose random IVs differ return different ciphertexts, since the IV is
  the part of the text before the colon. The AES block permutation is a parameter, asked
  to be undone by its inverse on 16-byte blocks; the IV is the 16 bytes drawn by
  \<open>randomBytes\<close>.
\<close>

theorem C4_decrypt_encrypt_and_fresh_iv:
  assumes "block_cipher_ok cr" and "length iv = 16"
  shows "decrypt cr k (encrypt cr k iv text) = Inr text
    \<and> (iv' \<noteq> iv \<longrightarrow> encrypt cr k iv' text \<noteq> encrypt cr k iv text)"
  using decrypt_encrypt [OF assms] encrypt_embeds_iv by blast

theorem C4_decrypt_encrypt_and_fresh_iv_witness:
  "decrypt toy_crypto ''master-key'' (encrypt toy_crypto ''master-key'' iv0 plain0) = Inr plain0
   \<and> encrypt toy_crypto ''master-key'' (rev iv0) plain0
       \<noteq> encrypt toy_crypto ''master-key'' iv0 plain0"
proof -
  have ok: "block_cipher_ok toy_crypto"
    by (simp add: block_cipher_ok_def toy_crypto_def)
  have l: "length iv0 = 16" by (simp add: iv0_def)
  have ne: "rev iv0 \<noteq> iv0" by (simp add: iv0_def)
  from C4_decrypt_encrypt_and_fresh_iv [OF ok l, of "''master-key''" plain0 "rev iv0"] ne
  show ?thesis by simp
qed

lemma flip_first_length: "length (flip_first xs) = length xs"
  by (cases xs) simp_all

lemma flip_first_changes: "xs \<noteq> [] \<Longrightarrow> flip_first xs \<noteq> xs"
proof (cases xs)
  case Nil
  assume "xs \<noteq> []"
  with Nil show ?thesis by simp
next
  case (Cons x rest)
  have "x XOR 1 \<noteq> x"
  proof
    assume "x XOR 1 = x"
    then have "(x XOR 1) XOR x = x XOR x" by simp
    then have "(1 :: byte) = 0" by (simp add: xor.commute xor.left_commute)
    then show False by simp
  qed
  with Cons show ?thesis by simp
qed

lemma xor_flip_first:
  "length p = length iv \<Longrightarrow> xor_block (xor_block p iv) (flip_first iv) = flip_first p"
proof (cases p)
  case Nil
  assume "length p = length iv"
  with Nil show ?thesis by (simp add: xor_block_def)
next
  case (Cons x p')
  assume l: "length p = length iv"
  with Cons obtain y iv' where iv: "iv = y # iv'" by (cases iv) auto
  with Cons l have "xor_block (xor_block p' iv') iv' = p'" by (simp add: xor_block_cancel)
  then have "map2 (XOR) (map2 (XOR) p' iv') iv' = p'" by (simp add: xor_block_def)
  moreover have "(x XOR y) XOR (y XOR 1) = x XOR 1"
    by (simp add: xor.assoc [symmetric]) (simp add: xor.assoc)
  ultimately show ?thesis using Cons iv by (simp add: xor_block_def)
qed

text \<open>
  C9 at the failing input: a stored ciphertext whose first IV byte has one bit flipped.
  The cipher in use is AES-256-CBC, which carries no authentication tag (the class
  declares \<open>algorithm = 'aes-256-gcm'\<close> and never uses it). Decryption of the changed
  text does not fail: it returns the plaintext with the same bit flipped in its first
  byte. The key is the 32-byte \<open>scryptSync\<close> output with the fixed salt and the IV has
  16 bytes, as the claim says.
\<close>

theorem C9_tampered_ciphertext_decrypts:
  assumes ok: "block_cipher_ok cr" and iv: "length iv = 16" and ne: "text \<noteq> []"
  shows "decrypt cr k (tamper_iv (encrypt cr k iv text)) = Inr (flip_first text)
    \<and> flip_first text \<noteq> text
    \<and> tamper_iv (encrypt cr k iv text) \<noteq> encrypt cr k iv text"
proof -
  define key where "key = scryptSync cr k ''salt'' 32"
  define cs where "cs = cbc_encrypt (block_encrypt cr key) iv (blocks16 (pkcs7_pad text))"
  have enc: "\<And>b. length b = 16 \<Longrightarrow>
      length (block_encrypt cr key b) = 16 \<and> block_decrypt cr key (block_encrypt cr key b) = b"
    using ok by (simp add: block_cipher_ok_def)
  have cl: "\<forall>c \<in> set cs. length c = 16"
    using enc iv padded_blocks_16 unfolding cs_def by (intro cbc_encrypt_lengths) simp_all
  obtain p ps where bl: "blocks16 (pkcs7_pad text) = p # ps"
    using pkcs7_pad_not_Nil [of "text"] by (subst (asm) blocks16.simps) simp
  have pl: "length p = 16" and psl: "\<forall>q \<in> set ps. length q = 16"
    using padded_blocks_16 [of "text"] bl by simp_all
  define c1 where "c1 = block_encrypt cr key (xor_block p iv)"
  have lx: "length (xor_block p iv) = 16" using pl iv by (simp add: length_xor_block)
  have c1: "length c1 = 16" "block_decrypt cr key c1 = xor_block p iv"
    using enc [OF lx] by (simp_all add: c1_def)
  have cs: "cs = c1 # cbc_encrypt (block_encrypt cr key) c1 ps"
    by (simp add: cs_def bl c1_def)
  have data_ne: "concat cs \<noteq> []" using cs c1 by auto
  have "length (concat cs) = 16 * length cs"
    using cl by (induction cs) simp_all
  then have data_len: "length (concat cs) mod 16 = 0" by simp
  have rest: "cbc_decrypt (block_decrypt cr key) c1 (cbc_encrypt (block_encrypt cr key) c1 ps) = ps"
    using enc c1(1) psl by (intro cbc_roundtrip) simp_all
  have dec: "cbc_decrypt (block_decrypt cr key) (flip_first iv) cs = flip_first p # ps"
    using pl iv by (simp add: cs rest c1(2) xor_flip_first)
  have cc: "pkcs7_pad text = concat (p # ps)"
    using concat_blocks16 [of "pkcs7_pad text"] bl by simp
  have "p \<noteq> []" using pl by auto
  then have "concat (flip_first p # ps) = flip_first (pkcs7_pad text)"
    unfolding cc by (cases p) simp_all
  also have "\<dots> = flip_first text @ replicate (16 - length text mod 16)
                                       (of_nat (16 - length text mod 16))"
    using ne by (cases "text") (simp_all add: pkcs7_pad_def)
  finally have plain: "concat (flip_first p # ps)
      = flip_first text @ replicate (16 - length text mod 16) (of_nat (16 - length text mod 16))" .
  have unpad: "pkcs7_unpad (concat (flip_first p # ps)) = Some (flip_first text)"
    unfolding plain by (rule pkcs7_unpad_append) simp_all
  have e: "tamper_iv (encrypt cr k iv text) = hex (flip_first iv) @ CHR '':'' # hex (concat cs)"
    by (simp add: tamper_iv_def encrypt_def key_def cs_def Let_def split_ciphertext unhex_hex)
  have d: "decrypt cr k (tamper_iv (encrypt cr k iv text)) = Inr (flip_first text)"
    using iv data_ne data_len dec unpad
    unfolding e decrypt_def Let_def split_ciphertext
    by (simp add: unhex_hex key_def [symmetric] blocks16_concat [OF cl] flip_first_length
          even_length_hex)
  have "iv \<noteq> []" using iv by auto
  then have "hex (flip_first iv) \<noteq> hex iv"
    using flip_first_changes [of iv] hex_inj by blast
  then have t: "tamper_iv (encrypt cr k iv text) \<noteq> encrypt cr k iv text"
    unfolding e by (simp add: encrypt_def Let_def length_hex flip_first_length)
  from d flip_first_changes [OF ne] t show ?thesis by simp
qed

theorem C9_tampered_ciphertext_decrypts_witness:
  "decrypt toy_crypto ''master-key'' (tamper_iv (encrypt toy_crypto ''master-key'' iv0 plain0))
     = Inr [122, 34, 116, 34, 58, 49, 125]
   \<and> plain0 = [123, 34, 116, 34, 58, 49, 125]"
proof -
  have ok: "block_cipher_ok toy_crypto"
    by (simp add: block_cipher_ok_def toy_crypto_def)
  have l: "length iv0 = 16" by (simp add: iv0_def)
  have ne: "plain0 \<noteq> []" by (simp add: plain0_def)
  have f: "flip_first plain0 = [122, 34, 116, 34, 58, 49, 125]"
    by (simp add: plain0_def)
  from C9_tampered_ciphertext_decrypts [OF ok l ne, of "''master-key''"] f
  show ?thesis by (simp add: plain0_def)
qed

section \<open>Automatic credential lookup: results\<close>








end
